theory Spec2Isabelle
  imports Complex_Main
begin

section \<open>Errors of the Python runtime\<close>

text \<open>
  The core raises no error of its own: every failure is one of the generic errors of
  Python and of the tensor runtime. A function that can raise returns
  \<open>py_error + 'a\<close>, with \<open>Inl\<close> for the raise.
\<close>

datatype py_error =
    NameError string
  | IndexError
  | ValueError
  | RuntimeError

definition bind_err :: "py_error + 'a \<Rightarrow> ('a \<Rightarrow> py_error + 'b) \<Rightarrow> py_error + 'b" where
  "bind_err m f = (case m of Inl e \<Rightarrow> Inl e | Inr x \<Rightarrow> f x)"

text \<open>A call \<^emph>\<open>raises\<close> when it does not return normally.\<close>

definition raises :: "py_error + 'a \<Rightarrow> bool" where
  "raises m = (case m of Inl _ \<Rightarrow> True | Inr _ \<Rightarrow> False)"

section \<open>Real-valued helpers of numpy and torch\<close>

text \<open>
  Floating-point tensors are idealised as real numbers. \<open>np_mod\<close> is numpy's
  \<open>%\<close> on floats (the remainder has the sign of the divisor);
  \<open>deg2rad\<close> is \<open>np.deg2rad\<close>.
\<close>

definition np_mod :: "real \<Rightarrow> real \<Rightarrow> real" where
  "np_mod x y = x - y * of_int \<lfloor>x / y\<rfloor>"

definition deg2rad :: "real \<Rightarrow> real" where
  "deg2rad d = d * (pi / 180)"

text \<open>\<open>torch.ones(n, c, h, w)\<close> and an elementwise map over a rank-4 tensor.\<close>

definition ones4 :: "nat \<Rightarrow> nat \<Rightarrow> nat \<Rightarrow> nat \<Rightarrow> real list list list list" where
  "ones4 n c h w = replicate n (replicate c (replicate h (replicate w 1)))"

definition map4 :: "(real \<Rightarrow> real) \<Rightarrow> real list list list list \<Rightarrow> real list list list list" where
  "map4 f t = map (map (map (map f))) t"

section \<open>SyncMultiviewDiffusion: camera metadata and viewpoint embedding\<close>

text \<open>
  The normalisation of line 174 of View_feature_extractor.py,
  \<^verbatim>\<open>azs = (azs + np.pi) % (np.pi * 2) - np.pi\<close>, on one entry of the array.
\<close>

definition normalize_azimuth :: "real \<Rightarrow> real" where
  "normalize_azimuth a = np_mod (a + pi) (pi * 2) - pi"

text \<open>
  \<open>get_viewpoint_embedding(self, batch_size, elevation_ref)\<close>, lines 178-196.
  \<open>azimuth\<close> is the registered buffer (N values), \<open>elevation_ref\<close> a vector.
  \<open>self.azimuth[0]\<close> raises IndexError on an empty buffer; \<open>torch.stack\<close> raises
  RuntimeError unless its four arguments have one shape, here
  \<open>(len(elevation_ref), N)\<close> for \<open>d_e\<close> and \<open>(batch_size, N)\<close> for the others.
\<close>

definition get_viewpoint_embedding ::
  "real list \<Rightarrow> nat \<Rightarrow> real list \<Rightarrow> py_error + real list list list" where
  "get_viewpoint_embedding azimuth batch_size elevation_ref =
     (case azimuth of
        [] \<Rightarrow> Inl IndexError
      | az0 # _ \<Rightarrow>
          (let azimuth_input = az0;
               azimuth_target = azimuth;
               elevation_input = map uminus elevation_ref;
               elevation_target = - deg2rad 30;
               d_e0 = map (\<lambda>e. elevation_target - e) elevation_input;
               N = length azimuth;
               B = batch_size;
               d_e = map (replicate N) d_e0;
               d_a0 = map (\<lambda>a. a - azimuth_input) azimuth_target;
               d_a = replicate B d_a0;
               d_z = map (map (\<lambda>_. 0)) d_a
           in if length d_e \<noteq> length d_a then Inl RuntimeError
              else Inr (map (\<lambda>b. map (\<lambda>n. [d_e ! b ! n, sin (d_a ! b ! n),
                                                cos (d_a ! b ! n), d_z ! b ! n])
                                      [0..<N])
                            [0..<B])))"

section \<open>Tensor shapes and the layers of torch.nn\<close>

text \<open>
  What the networks do to the \<^emph>\<open>shape\<close> of a tensor, and when the tensor runtime
  refuses a shape. A shape is the list of dimension sizes, as \<open>x.shape\<close>.
\<close>

type_synonym shape = "nat list"

text \<open>
  Broadcasting of two shapes (\<open>x + y\<close>): aligned from the last dimension, two sizes
  are compatible when they are equal or one of them is 1.
\<close>

fun broadcast_rev :: "nat list \<Rightarrow> nat list \<Rightarrow> py_error + nat list" where
  "broadcast_rev [] ys = Inr ys"
| "broadcast_rev xs [] = Inr xs"
| "broadcast_rev (x # xs) (y # ys) =
     (if x = y \<or> y = 1 then bind_err (broadcast_rev xs ys) (\<lambda>r. Inr (x # r))
      else if x = 1 then bind_err (broadcast_rev xs ys) (\<lambda>r. Inr (y # r))
      else Inl RuntimeError)"

definition tensor_add :: "shape \<Rightarrow> shape \<Rightarrow> py_error + shape" where
  "tensor_add x y = bind_err (broadcast_rev (rev x) (rev y)) (\<lambda>r. Inr (rev r))"

text \<open>
  \<open>nn.Conv3d(in_channels, out_channels, kernel_size, stride, padding)\<close>. The input is
  \<open>(N, C, D, H, W)\<close> or, unbatched, \<open>(C, D, H, W)\<close>; \<open>C\<close> must be \<open>in_channels\<close> and
  the padded input must not be smaller than the kernel. Every spatial size \<open>n\<close> becomes
  \<open>(n + 2 * padding - kernel_size) // stride + 1\<close>.
\<close>

record Conv3d =
  in_channels :: nat
  out_channels :: nat
  kernel_size :: nat
  stride :: nat
  padding :: nat

definition Conv3d_init :: "nat \<Rightarrow> nat \<Rightarrow> nat \<Rightarrow> nat \<Rightarrow> nat \<Rightarrow> Conv3d" where
  "Conv3d_init cin cout k s p =
     \<lparr> in_channels = cin, out_channels = cout, kernel_size = k, stride = s, padding = p \<rparr>"

definition conv_size :: "Conv3d \<Rightarrow> nat \<Rightarrow> nat" where
  "conv_size L n = (n + 2 * padding L - kernel_size L) div stride L + 1"

definition conv_fits :: "Conv3d \<Rightarrow> nat \<Rightarrow> bool" where
  "conv_fits L n = (kernel_size L \<le> n + 2 * padding L)"

definition Conv3d_forward :: "Conv3d \<Rightarrow> shape \<Rightarrow> py_error + shape" where
  "Conv3d_forward L x =
     (case x of
        [n, c, d, h, w] \<Rightarrow>
          if c = in_channels L \<and> conv_fits L d \<and> conv_fits L h \<and> conv_fits L w
          then Inr [n, out_channels L, conv_size L d, conv_size L h, conv_size L w]
          else Inl RuntimeError
      | [c, d, h, w] \<Rightarrow>
          if c = in_channels L \<and> conv_fits L d \<and> conv_fits L h \<and> conv_fits L w
          then Inr [out_channels L, conv_size L d, conv_size L h, conv_size L w]
          else Inl RuntimeError
      | _ \<Rightarrow> Inl RuntimeError)"

text \<open>
  \<open>nn.ConvTranspose3d(in, out, kernel_size=3, padding=1, output_padding=1, stride=2)\<close>:
  every spatial size \<open>n \<ge> 1\<close> becomes
  \<open>(n - 1) * stride - 2 * padding + kernel_size + output_padding\<close>.
\<close>

record ConvTranspose3d =
  tin_channels :: nat
  tout_channels :: nat
  tkernel_size :: nat
  tpadding :: nat
  output_padding :: nat
  tstride :: nat

definition ConvTranspose3d_init ::
  "nat \<Rightarrow> nat \<Rightarrow> nat \<Rightarrow> nat \<Rightarrow> nat \<Rightarrow> nat \<Rightarrow> ConvTranspose3d" where
  "ConvTranspose3d_init cin cout k p op s =
     \<lparr> tin_channels = cin, tout_channels = cout, tkernel_size = k, tpadding = p,
       output_padding = op, tstride = s \<rparr>"

definition tconv_size :: "ConvTranspose3d \<Rightarrow> nat \<Rightarrow> nat" where
  "tconv_size L n =
     nat ((int n - 1) * int (tstride L) - 2 * int (tpadding L) + int (tkernel_size L)
          + int (output_padding L))"

definition ConvTranspose3d_forward :: "ConvTranspose3d \<Rightarrow> shape \<Rightarrow> py_error + shape" where
  "ConvTranspose3d_forward L x =
     (case x of
        [n, c, d, h, w] \<Rightarrow>
          if c = tin_channels L \<and> 1 \<le> d \<and> 1 \<le> h \<and> 1 \<le> w
          then Inr [n, tout_channels L, tconv_size L d, tconv_size L h, tconv_size L w]
          else Inl RuntimeError
      | [c, d, h, w] \<Rightarrow>
          if c = tin_channels L \<and> 1 \<le> d \<and> 1 \<le> h \<and> 1 \<le> w
          then Inr [tout_channels L, tconv_size L d, tconv_size L h, tconv_size L w]
          else Inl RuntimeError
      | _ \<Rightarrow> Inl RuntimeError)"

text \<open>
  \<open>nn.GroupNorm(num_groups, num_channels)\<close>. The constructor raises ValueError unless
  \<open>num_groups\<close> divides \<open>num_channels\<close>. The forward pass keeps the shape; it needs
  an input \<open>(N, C, *)\<close> with \<open>C = num_channels\<close>, and
  \<open>torch.nn.functional.group_norm\<close> raises ValueError when a group holds a single
  value (\<open>(N * C // num_groups) * prod(spatial sizes) = 1\<close>).
\<close>

record GroupNorm =
  num_groups :: nat
  num_channels :: nat

definition GroupNorm_init :: "nat \<Rightarrow> nat \<Rightarrow> py_error + GroupNorm" where
  "GroupNorm_init g c =
     (if c mod g \<noteq> 0 then Inl ValueError
      else Inr \<lparr> num_groups = g, num_channels = c \<rparr>)"

definition GroupNorm_forward :: "GroupNorm \<Rightarrow> shape \<Rightarrow> py_error + shape" where
  "GroupNorm_forward L x =
     (case x of
        n # c # spatial \<Rightarrow>
          if (n * c div num_groups L) * prod_list spatial = 1 then Inl ValueError
          else if c \<noteq> num_channels L then Inl RuntimeError
          else Inr x
      | _ \<Rightarrow> Inl RuntimeError)"

text \<open>\<open>nn.SiLU\<close> is elementwise: the shape is unchanged.\<close>

definition SiLU_forward :: "shape \<Rightarrow> shape" where
  "SiLU_forward x = x"

section \<open>FrustumTVBlock, FrustumTVUpBlock and FrustumTV3DNet on shapes\<close>

text \<open>
  \<open>FrustumTVBlock\<close> (View_feature_extractor_net.py, lines 127-139). The constructor
  builds two 1x1x1 convolutions for the embeddings, a group norm over 8 groups and a
  3x3x3 convolution of the given stride; the forward pass is
  \<^verbatim>\<open>x = x + self.t_conv(t) + self.v_conv(v); return self.conv(self.silu(self.bn(x)))\<close>.
\<close>

record FrustumTVBlock =
  b_t_conv :: Conv3d
  b_v_conv :: Conv3d
  b_bn :: GroupNorm
  b_conv :: Conv3d

definition FrustumTVBlock_init ::
  "nat \<Rightarrow> nat \<Rightarrow> nat \<Rightarrow> nat \<Rightarrow> nat \<Rightarrow> py_error + FrustumTVBlock" where
  "FrustumTVBlock_init x_dim t_dim v_dim out_dim strd =
     bind_err (GroupNorm_init 8 x_dim) (\<lambda>bn.
       Inr \<lparr> b_t_conv = Conv3d_init t_dim x_dim 1 1 0,
             b_v_conv = Conv3d_init v_dim x_dim 1 1 0,
             b_bn = bn,
             b_conv = Conv3d_init x_dim out_dim 3 strd 1 \<rparr>)"

definition FrustumTVBlock_forward ::
  "FrustumTVBlock \<Rightarrow> shape \<Rightarrow> shape \<Rightarrow> shape \<Rightarrow> py_error + shape" where
  "FrustumTVBlock_forward self x t v =
     bind_err (Conv3d_forward (b_t_conv self) t) (\<lambda>tc.
     bind_err (tensor_add x tc) (\<lambda>xt.
     bind_err (Conv3d_forward (b_v_conv self) v) (\<lambda>vc.
     bind_err (tensor_add xt vc) (\<lambda>x'.
     bind_err (GroupNorm_forward (b_bn self) x') (\<lambda>n.
     Conv3d_forward (b_conv self) (SiLU_forward n))))))"

text \<open>\<open>FrustumTVUpBlock\<close> (lines 141-153): the same with a transposed convolution.\<close>

record FrustumTVUpBlock =
  u_t_conv :: Conv3d
  u_v_conv :: Conv3d
  u_norm :: GroupNorm
  u_conv :: ConvTranspose3d

definition FrustumTVUpBlock_init ::
  "nat \<Rightarrow> nat \<Rightarrow> nat \<Rightarrow> nat \<Rightarrow> py_error + FrustumTVUpBlock" where
  "FrustumTVUpBlock_init x_dim t_dim v_dim out_dim =
     bind_err (GroupNorm_init 8 x_dim) (\<lambda>norm.
       Inr \<lparr> u_t_conv = Conv3d_init t_dim x_dim 1 1 0,
             u_v_conv = Conv3d_init v_dim x_dim 1 1 0,
             u_norm = norm,
             u_conv = ConvTranspose3d_init x_dim out_dim 3 1 1 2 \<rparr>)"

definition FrustumTVUpBlock_forward ::
  "FrustumTVUpBlock \<Rightarrow> shape \<Rightarrow> shape \<Rightarrow> shape \<Rightarrow> py_error + shape" where
  "FrustumTVUpBlock_forward self x t v =
     bind_err (Conv3d_forward (u_t_conv self) t) (\<lambda>tc.
     bind_err (tensor_add x tc) (\<lambda>xt.
     bind_err (Conv3d_forward (u_v_conv self) v) (\<lambda>vc.
     bind_err (tensor_add xt vc) (\<lambda>x'.
     bind_err (GroupNorm_forward (u_norm self) x') (\<lambda>n.
     ConvTranspose3d_forward (u_conv self) (SiLU_forward n))))))"

text \<open>
  \<open>FrustumTV3DNet\<close> (lines 156-189). \<open>dims\<close> is the tuple of the four channel
  counts; \<open>dims[i]\<close> raises IndexError on a shorter tuple.
\<close>

record FrustumTV3DNet =
  conv0 :: Conv3d
  conv1 :: FrustumTVBlock
  conv2 :: FrustumTVBlock
  conv3 :: FrustumTVBlock
  conv4 :: FrustumTVBlock
  conv5 :: FrustumTVBlock
  conv6 :: FrustumTVBlock
  up0 :: FrustumTVUpBlock
  up1 :: FrustumTVUpBlock
  up2 :: FrustumTVUpBlock

definition tuple_get :: "nat list \<Rightarrow> nat \<Rightarrow> py_error + nat" where
  "tuple_get dims i = (if i < length dims then Inr (dims ! i) else Inl IndexError)"

definition FrustumTV3DNet_init ::
  "nat \<Rightarrow> nat \<Rightarrow> nat \<Rightarrow> nat list \<Rightarrow> py_error + FrustumTV3DNet" where
  "FrustumTV3DNet_init in_dim t_dim v_dim dims =
     bind_err (tuple_get dims 0) (\<lambda>d0.
     bind_err (tuple_get dims 1) (\<lambda>d1.
     bind_err (FrustumTVBlock_init d0 t_dim v_dim d1 2) (\<lambda>c1.
     bind_err (FrustumTVBlock_init d1 t_dim v_dim d1 1) (\<lambda>c2.
     bind_err (tuple_get dims 2) (\<lambda>d2.
     bind_err (FrustumTVBlock_init d1 t_dim v_dim d2 2) (\<lambda>c3.
     bind_err (FrustumTVBlock_init d2 t_dim v_dim d2 1) (\<lambda>c4.
     bind_err (tuple_get dims 3) (\<lambda>d3.
     bind_err (FrustumTVBlock_init d2 t_dim v_dim d3 2) (\<lambda>c5.
     bind_err (FrustumTVBlock_init d3 t_dim v_dim d3 1) (\<lambda>c6.
     bind_err (FrustumTVUpBlock_init d3 t_dim v_dim d2) (\<lambda>p0.
     bind_err (FrustumTVUpBlock_init d2 t_dim v_dim d1) (\<lambda>p1.
     bind_err (FrustumTVUpBlock_init d1 t_dim v_dim d0) (\<lambda>p2.
       Inr \<lparr> conv0 = Conv3d_init in_dim d0 3 1 1,
             conv1 = c1, conv2 = c2, conv3 = c3, conv4 = c4, conv5 = c5, conv6 = c6,
             up0 = p0, up1 = p1, up2 = p2 \<rparr>)))))))))))))"

text \<open>
  The forward pass (lines 174-189). \<open>B, DT = t.shape\<close> and \<open>B, DV = v.shape\<close> raise
  ValueError unless the embeddings have rank 2, \<open>b, _, d, h, w = x.shape\<close> unless
  \<open>x\<close> has rank 5. The result is the dict literal
  \<^verbatim>\<open>{w: x0, w//2: x1, w//4: x2, w//8: x3}\<close>, kept as an association list in insertion
  order, where a repeated key overwrites the earlier entry.
\<close>

fun dict_set :: "(nat \<times> 'v) list \<Rightarrow> nat \<Rightarrow> 'v \<Rightarrow> (nat \<times> 'v) list" where
  "dict_set [] k v = [(k, v)]"
| "dict_set ((k', v') # d) k v =
     (if k' = k then (k, v) # d else (k', v') # dict_set d k v)"

definition FrustumTV3DNet_forward ::
  "FrustumTV3DNet \<Rightarrow> shape \<Rightarrow> shape \<Rightarrow> shape \<Rightarrow> py_error + (nat \<times> shape) list" where
  "FrustumTV3DNet_forward self x t v =
     (case t of
        [B, DT] \<Rightarrow>
          (let t = [B, DT, 1, 1, 1] in
           case v of
             [B', DV] \<Rightarrow>
               (let v = [B', DV, 1, 1, 1] in
                case x of
                  [b, c, d, h, w] \<Rightarrow>
                    bind_err (Conv3d_forward (conv0 self) x) (\<lambda>x0.
                    bind_err (FrustumTVBlock_forward (conv1 self) x0 t v) (\<lambda>a1.
                    bind_err (FrustumTVBlock_forward (conv2 self) a1 t v) (\<lambda>x1.
                    bind_err (FrustumTVBlock_forward (conv3 self) x1 t v) (\<lambda>a2.
                    bind_err (FrustumTVBlock_forward (conv4 self) a2 t v) (\<lambda>x2.
                    bind_err (FrustumTVBlock_forward (conv5 self) x2 t v) (\<lambda>a3.
                    bind_err (FrustumTVBlock_forward (conv6 self) a3 t v) (\<lambda>x3.
                    bind_err (FrustumTVUpBlock_forward (up0 self) x3 t v) (\<lambda>u0.
                    bind_err (tensor_add u0 x2) (\<lambda>x2.
                    bind_err (FrustumTVUpBlock_forward (up1 self) x2 t v) (\<lambda>u1.
                    bind_err (tensor_add u1 x1) (\<lambda>x1.
                    bind_err (FrustumTVUpBlock_forward (up2 self) x1 t v) (\<lambda>u2.
                    bind_err (tensor_add u2 x0) (\<lambda>x0.
                      Inr (dict_set (dict_set (dict_set (dict_set [] w x0)
                             (w div 2) x1) (w div 4) x2) (w div 8) x3))))))))))))))
                | _ \<Rightarrow> Inl ValueError)
           | _ \<Rightarrow> Inl ValueError)
      | _ \<Rightarrow> Inl ValueError)"

text \<open>
  The network as \<open>SpatialVolumeNet.__init__\<close> configures it (line 23):
  \<^verbatim>\<open>FrustumTV3DNet(64, time_dim, view_dim, dims=(64, 128, 256, 512))\<close>, run on a volume.
\<close>

definition frustum_volume_feats_run ::
  "nat \<Rightarrow> nat \<Rightarrow> shape \<Rightarrow> shape \<Rightarrow> shape \<Rightarrow> py_error + (nat \<times> shape) list" where
  "frustum_volume_feats_run tdim vdim x t v =
     bind_err (FrustumTV3DNet_init 64 tdim vdim [64, 128, 256, 512]) (\<lambda>net.
       FrustumTV3DNet_forward net x t v)"

section \<open>NoisyTargetViewEncoder and SpatialTime3DNet on shapes\<close>

text \<open>
  \<open>nn.Conv2d(in_channels, out_channels, kernel_size, stride, padding)\<close>: as
  \<open>nn.Conv3d\<close>, over \<open>(N, C, H, W)\<close> or, unbatched, \<open>(C, H, W)\<close>.
\<close>

definition Conv2d_forward :: "Conv3d \<Rightarrow> shape \<Rightarrow> py_error + shape" where
  "Conv2d_forward L x =
     (case x of
        [n, c, h, w] \<Rightarrow>
          if c = in_channels L \<and> conv_fits L h \<and> conv_fits L w
          then Inr [n, out_channels L, conv_size L h, conv_size L w]
          else Inl RuntimeError
      | [c, h, w] \<Rightarrow>
          if c = in_channels L \<and> conv_fits L h \<and> conv_fits L w
          then Inr [out_channels L, conv_size L h, conv_size L w]
          else Inl RuntimeError
      | _ \<Rightarrow> Inl RuntimeError)"

text \<open>
  \<open>Image2DResBlockWithTV\<close> (View_feature_extractor_net.py, lines 5-21):
  \<^verbatim>\<open>return x + self.conv(x + self.time_embed(t) + self.view_embed(v))\<close>, where
  \<open>self.conv\<close> is the sequence norm, SiLU, 3x3 convolution, norm, SiLU, 3x3 convolution.
\<close>

record Image2DResBlockWithTV =
  r_time_embed :: Conv3d
  r_view_embed :: Conv3d
  r_norm0 :: GroupNorm
  r_conv0 :: Conv3d
  r_norm1 :: GroupNorm
  r_conv1 :: Conv3d

definition Image2DResBlockWithTV_init ::
  "nat \<Rightarrow> nat \<Rightarrow> nat \<Rightarrow> py_error + Image2DResBlockWithTV" where
  "Image2DResBlockWithTV_init dm tdim vdim =
     bind_err (GroupNorm_init 8 dm) (\<lambda>n0.
     bind_err (GroupNorm_init 8 dm) (\<lambda>n1.
       Inr \<lparr> r_time_embed = Conv3d_init tdim dm 1 1 0,
             r_view_embed = Conv3d_init vdim dm 1 1 0,
             r_norm0 = n0, r_conv0 = Conv3d_init dm dm 3 1 1,
             r_norm1 = n1, r_conv1 = Conv3d_init dm dm 3 1 1 \<rparr>))"

definition Image2DResBlockWithTV_forward ::
  "Image2DResBlockWithTV \<Rightarrow> shape \<Rightarrow> shape \<Rightarrow> shape \<Rightarrow> py_error + shape" where
  "Image2DResBlockWithTV_forward self x t v =
     bind_err (Conv2d_forward (r_time_embed self) t) (\<lambda>te.
     bind_err (tensor_add x te) (\<lambda>xt.
     bind_err (Conv2d_forward (r_view_embed self) v) (\<lambda>ve.
     bind_err (tensor_add xt ve) (\<lambda>a.
     bind_err (GroupNorm_forward (r_norm0 self) a) (\<lambda>g0.
     bind_err (Conv2d_forward (r_conv0 self) (SiLU_forward g0)) (\<lambda>c0.
     bind_err (GroupNorm_forward (r_norm1 self) c0) (\<lambda>g1.
     bind_err (Conv2d_forward (r_conv1 self) (SiLU_forward g1)) (\<lambda>c1.
     tensor_add x c1))))))))"

text \<open>\<open>NoisyTargetViewEncoder\<close> (lines 24-49).\<close>

record NoisyTargetViewEncoder =
  e_init_conv :: Conv3d
  e_out_conv0 :: Image2DResBlockWithTV
  e_out_conv1 :: Image2DResBlockWithTV
  e_out_conv2 :: Image2DResBlockWithTV
  e_final_norm :: GroupNorm
  e_final_conv :: Conv3d

definition NoisyTargetViewEncoder_init ::
  "nat \<Rightarrow> nat \<Rightarrow> nat \<Rightarrow> nat \<Rightarrow> py_error + NoisyTargetViewEncoder" where
  "NoisyTargetViewEncoder_init time_embed_dim viewpoint_dim run_dim output_dim =
     bind_err (Image2DResBlockWithTV_init run_dim time_embed_dim viewpoint_dim) (\<lambda>o0.
     bind_err (Image2DResBlockWithTV_init run_dim time_embed_dim viewpoint_dim) (\<lambda>o1.
     bind_err (Image2DResBlockWithTV_init run_dim time_embed_dim viewpoint_dim) (\<lambda>o2.
     bind_err (GroupNorm_init 8 run_dim) (\<lambda>fn.
       Inr \<lparr> e_init_conv = Conv3d_init 4 run_dim 3 1 1,
             e_out_conv0 = o0, e_out_conv1 = o1, e_out_conv2 = o2,
             e_final_norm = fn,
             e_final_conv = Conv3d_init run_dim output_dim 3 1 1 \<rparr>))))"

definition NoisyTargetViewEncoder_forward ::
  "NoisyTargetViewEncoder \<Rightarrow> shape \<Rightarrow> shape \<Rightarrow> shape \<Rightarrow> py_error + shape" where
  "NoisyTargetViewEncoder_forward self x t v =
     (case t of
        [B, DT] \<Rightarrow>
          (let t = [B, DT, 1, 1] in
           case v of
             [B', DV] \<Rightarrow>
               (let v = [B', DV, 1, 1] in
                bind_err (Conv2d_forward (e_init_conv self) x) (\<lambda>x.
                bind_err (Image2DResBlockWithTV_forward (e_out_conv0 self) x t v) (\<lambda>x.
                bind_err (Image2DResBlockWithTV_forward (e_out_conv1 self) x t v) (\<lambda>x.
                bind_err (Image2DResBlockWithTV_forward (e_out_conv2 self) x t v) (\<lambda>x.
                bind_err (GroupNorm_forward (e_final_norm self) x) (\<lambda>g.
                Conv2d_forward (e_final_conv self) (SiLU_forward g)))))))
           | _ \<Rightarrow> Inl ValueError)
      | _ \<Rightarrow> Inl ValueError)"

text \<open>\<open>SpatialTimeBlock\<close> and \<open>SpatialUpTimeBlock\<close> (lines 51-75).\<close>

record SpatialTimeBlock =
  s_t_conv :: Conv3d
  s_bn :: GroupNorm
  s_conv :: Conv3d

definition SpatialTimeBlock_init :: "nat \<Rightarrow> nat \<Rightarrow> nat \<Rightarrow> nat \<Rightarrow> py_error + SpatialTimeBlock" where
  "SpatialTimeBlock_init x_in_dim t_in_dim out_dim strd =
     bind_err (GroupNorm_init 8 x_in_dim) (\<lambda>bn.
       Inr \<lparr> s_t_conv = Conv3d_init t_in_dim x_in_dim 1 1 0, s_bn = bn,
             s_conv = Conv3d_init x_in_dim out_dim 3 strd 1 \<rparr>)"

definition SpatialTimeBlock_forward :: "SpatialTimeBlock \<Rightarrow> shape \<Rightarrow> shape \<Rightarrow> py_error + shape" where
  "SpatialTimeBlock_forward self x t =
     bind_err (Conv3d_forward (s_t_conv self) t) (\<lambda>tc.
     bind_err (tensor_add x tc) (\<lambda>x'.
     bind_err (GroupNorm_forward (s_bn self) x') (\<lambda>n.
     Conv3d_forward (s_conv self) (SiLU_forward n))))"

record SpatialUpTimeBlock =
  su_t_conv :: Conv3d
  su_norm :: GroupNorm
  su_conv :: ConvTranspose3d

definition SpatialUpTimeBlock_init :: "nat \<Rightarrow> nat \<Rightarrow> nat \<Rightarrow> py_error + SpatialUpTimeBlock" where
  "SpatialUpTimeBlock_init x_in_dim t_in_dim out_dim =
     bind_err (GroupNorm_init 8 x_in_dim) (\<lambda>norm.
       Inr \<lparr> su_t_conv = Conv3d_init t_in_dim x_in_dim 1 1 0, su_norm = norm,
             su_conv = ConvTranspose3d_init x_in_dim out_dim 3 1 1 2 \<rparr>)"

definition SpatialUpTimeBlock_forward ::
  "SpatialUpTimeBlock \<Rightarrow> shape \<Rightarrow> shape \<Rightarrow> py_error + shape" where
  "SpatialUpTimeBlock_forward self x t =
     bind_err (Conv3d_forward (su_t_conv self) t) (\<lambda>tc.
     bind_err (tensor_add x tc) (\<lambda>x'.
     bind_err (GroupNorm_forward (su_norm self) x') (\<lambda>n.
     ConvTranspose3d_forward (su_conv self) (SiLU_forward n))))"

text \<open>
  \<open>SpatialTime3DNet\<close> (lines 78-125). \<open>d0, d1, d2, d3 = dims\<close> raises ValueError
  unless \<open>dims\<close> has four entries; \<open>B, C = t.shape\<close> unless \<open>t\<close> has rank 2.
\<close>

record SpatialTime3DNet =
  st_init_conv :: Conv3d
  st_conv0 :: SpatialTimeBlock
  st_conv1 :: SpatialTimeBlock
  st_conv2_0 :: SpatialTimeBlock
  st_conv2_1 :: SpatialTimeBlock
  st_conv3 :: SpatialTimeBlock
  st_conv4_0 :: SpatialTimeBlock
  st_conv4_1 :: SpatialTimeBlock
  st_conv5 :: SpatialTimeBlock
  st_conv6_0 :: SpatialTimeBlock
  st_conv6_1 :: SpatialTimeBlock
  st_conv7 :: SpatialUpTimeBlock
  st_conv8 :: SpatialUpTimeBlock
  st_conv9 :: SpatialUpTimeBlock

definition SpatialTime3DNet_init :: "nat \<Rightarrow> nat \<Rightarrow> nat list \<Rightarrow> py_error + SpatialTime3DNet" where
  "SpatialTime3DNet_init tdim input_dim dims =
     (case dims of
        [d0, d1, d2, d3] \<Rightarrow>
          (let dt = tdim in
           bind_err (SpatialTimeBlock_init d0 dt d0 1) (\<lambda>c0.
           bind_err (SpatialTimeBlock_init d0 dt d1 2) (\<lambda>c1.
           bind_err (SpatialTimeBlock_init d1 dt d1 1) (\<lambda>c20.
           bind_err (SpatialTimeBlock_init d1 dt d1 1) (\<lambda>c21.
           bind_err (SpatialTimeBlock_init d1 dt d2 2) (\<lambda>c3.
           bind_err (SpatialTimeBlock_init d2 dt d2 1) (\<lambda>c40.
           bind_err (SpatialTimeBlock_init d2 dt d2 1) (\<lambda>c41.
           bind_err (SpatialTimeBlock_init d2 dt d3 2) (\<lambda>c5.
           bind_err (SpatialTimeBlock_init d3 dt d3 1) (\<lambda>c60.
           bind_err (SpatialTimeBlock_init d3 dt d3 1) (\<lambda>c61.
           bind_err (SpatialUpTimeBlock_init d3 dt d2) (\<lambda>c7.
           bind_err (SpatialUpTimeBlock_init d2 dt d1) (\<lambda>c8.
           bind_err (SpatialUpTimeBlock_init d1 dt d0) (\<lambda>c9.
             Inr \<lparr> st_init_conv = Conv3d_init input_dim d0 3 1 1,
                   st_conv0 = c0, st_conv1 = c1, st_conv2_0 = c20, st_conv2_1 = c21,
                   st_conv3 = c3, st_conv4_0 = c40, st_conv4_1 = c41, st_conv5 = c5,
                   st_conv6_0 = c60, st_conv6_1 = c61, st_conv7 = c7, st_conv8 = c8,
                   st_conv9 = c9 \<rparr>))))))))))))))
      | _ \<Rightarrow> Inl ValueError)"

definition SpatialTime3DNet_forward :: "SpatialTime3DNet \<Rightarrow> shape \<Rightarrow> shape \<Rightarrow> py_error + shape" where
  "SpatialTime3DNet_forward self x t =
     (case t of
        [B, C] \<Rightarrow>
          (let t = [B, C, 1, 1, 1] in
           bind_err (Conv3d_forward (st_init_conv self) x) (\<lambda>x.
           bind_err (SpatialTimeBlock_forward (st_conv0 self) x t) (\<lambda>conv0.
           bind_err (SpatialTimeBlock_forward (st_conv1 self) conv0 t) (\<lambda>x.
           bind_err (SpatialTimeBlock_forward (st_conv2_0 self) x t) (\<lambda>x.
           bind_err (SpatialTimeBlock_forward (st_conv2_1 self) x t) (\<lambda>conv2.
           bind_err (SpatialTimeBlock_forward (st_conv3 self) conv2 t) (\<lambda>x.
           bind_err (SpatialTimeBlock_forward (st_conv4_0 self) x t) (\<lambda>x.
           bind_err (SpatialTimeBlock_forward (st_conv4_1 self) x t) (\<lambda>conv4.
           bind_err (SpatialTimeBlock_forward (st_conv5 self) conv4 t) (\<lambda>x.
           bind_err (SpatialTimeBlock_forward (st_conv6_0 self) x t) (\<lambda>x.
           bind_err (SpatialTimeBlock_forward (st_conv6_1 self) x t) (\<lambda>x.
           bind_err (SpatialUpTimeBlock_forward (st_conv7 self) x t) (\<lambda>u.
           bind_err (tensor_add conv4 u) (\<lambda>x.
           bind_err (SpatialUpTimeBlock_forward (st_conv8 self) x t) (\<lambda>u.
           bind_err (tensor_add conv2 u) (\<lambda>x.
           bind_err (SpatialUpTimeBlock_forward (st_conv9 self) x t) (\<lambda>u.
           tensor_add conv0 u)))))))))))))))))
      | _ \<Rightarrow> Inl ValueError)"

section \<open>Shape-changing operations of torch\<close>

definition numel :: "shape \<Rightarrow> nat" where
  "numel s = prod_list s"

text \<open>\<open>x.view(*target)\<close> with every size given: the element counts must agree.\<close>

definition view_shape :: "shape \<Rightarrow> shape \<Rightarrow> py_error + shape" where
  "view_shape s target = (if numel s = prod_list target then Inr target else Inl RuntimeError)"

text \<open>
  \<open>x.view(*pre, -1, *post)\<close>: the size at \<open>-1\<close> is inferred; the runtime raises when the
  known sizes multiply to 0 or do not divide the element count.
\<close>

definition view_infer :: "shape \<Rightarrow> nat list \<Rightarrow> nat list \<Rightarrow> py_error + shape" where
  "view_infer s pre post =
     (let p = prod_list pre * prod_list post
      in if p = 0 \<or> numel s mod p \<noteq> 0 then Inl RuntimeError
         else Inr (pre @ [numel s div p] @ post))"

text \<open>\<open>x.unsqueeze(d)\<close> for \<open>d \<ge> 0\<close>.\<close>

definition unsqueeze :: "nat \<Rightarrow> shape \<Rightarrow> py_error + shape" where
  "unsqueeze d s = (if d \<le> length s then Inr (take d s @ [1] @ drop d s) else Inl IndexError)"

text \<open>
  \<open>x.repeat(*reps)\<close>: at least as many repeats as dimensions; the shape is padded with
  leading ones and multiplied entry by entry.
\<close>

definition repeat :: "shape \<Rightarrow> nat list \<Rightarrow> py_error + shape" where
  "repeat s reps =
     (if length reps < length s then Inl RuntimeError
      else Inr (map2 (*) reps (replicate (length reps - length s) 1 @ s)))"

text \<open>\<open>x.permute(*perm)\<close>: \<open>perm\<close> must be a permutation of the dimensions.\<close>

definition permute :: "shape \<Rightarrow> nat list \<Rightarrow> py_error + shape" where
  "permute s perm =
     (if length perm = length s \<and> distinct perm \<and> list_all (\<lambda>i. i < length s) perm
      then Inr (map (\<lambda>i. s ! i) perm) else Inl RuntimeError)"

text \<open>\<open>x[:, ni]\<close>: needs two dimensions and \<open>ni\<close> below the size of dimension 1.\<close>

definition select_dim1 :: "shape \<Rightarrow> nat \<Rightarrow> py_error + shape" where
  "select_dim1 s ni =
     (case s of
        n # m # rest \<Rightarrow> if ni < m then Inr (n # rest) else Inl IndexError
      | _ \<Rightarrow> Inl IndexError)"

text \<open>
  An integer tensor, as \<open>target_indices\<close>: its shape and its entries in row-major order.
\<close>

record index_tensor =
  ishape :: shape
  idata :: "int list"

text \<open>
  \<open>table[idx]\<close> for a one-dimensional integer tensor \<open>idx\<close>: every entry must lie in
  \<open>[-N, N)\<close>, where \<open>N\<close> is the size of dimension 0 (a negative entry counts from the
  end); otherwise the runtime raises IndexError. Nothing else is checked.
\<close>

definition index_in_range :: "nat \<Rightarrow> int \<Rightarrow> bool" where
  "index_in_range N i = (- int N \<le> i \<and> i < int N)"

definition index_rows :: "shape \<Rightarrow> int list \<Rightarrow> py_error + shape" where
  "index_rows s idx =
     (case s of
        [] \<Rightarrow> Inl IndexError
      | N # rest \<Rightarrow>
          if list_all (index_in_range N) idx then Inr (length idx # rest) else Inl IndexError)"

text \<open>
  \<open>v_embed[torch.arange(B)[:, None], idx.view(B, TN)]\<close>: the row indices \<open>0 .. B-1\<close>
  must exist and every entry of \<open>idx\<close> must lie in \<open>[-M, M)\<close> for the size \<open>M\<close> of
  dimension 1; indices are only looked at when the result has an element.
\<close>

definition index_pairs :: "shape \<Rightarrow> nat \<Rightarrow> nat \<Rightarrow> int list \<Rightarrow> py_error + shape" where
  "index_pairs s B TN idx =
     (case s of
        n # m # rest \<Rightarrow>
          if B * TN = 0 \<or> (B \<le> n \<and> list_all (index_in_range m) idx)
          then Inr (B # TN # rest) else Inl IndexError
      | _ \<Rightarrow> Inl IndexError)"

text \<open>
  \<open>F.grid_sample(input, grid)\<close>: \<open>input\<close> is \<open>(N, C, H, W)\<close> with a grid
  \<open>(N, Ho, Wo, 2)\<close>, or \<open>(N, C, D, H, W)\<close> with a grid \<open>(N, Do, Ho, Wo, 3)\<close>; the
  spatial sizes of the input must not be 0.
\<close>

definition grid_sample :: "shape \<Rightarrow> shape \<Rightarrow> py_error + shape" where
  "grid_sample inp grid =
     (case inp of
        [n, c, h, w] \<Rightarrow>
          (case grid of
             [n', ho, wo, k] \<Rightarrow>
               if n = n' \<and> k = 2 \<and> 0 < h \<and> 0 < w then Inr [n, c, ho, wo]
               else Inl RuntimeError
           | _ \<Rightarrow> Inl RuntimeError)
      | [n, c, d, h, w] \<Rightarrow>
          (case grid of
             [n', d', ho, wo, k] \<Rightarrow>
               if n = n' \<and> k = 3 \<and> 0 < d \<and> 0 < h \<and> 0 < w then Inr [n, c, d', ho, wo]
               else Inl RuntimeError
           | _ \<Rightarrow> Inl RuntimeError)
      | _ \<Rightarrow> Inl RuntimeError)"

text \<open>
  \<open>torch.stack(tensors, 1)\<close>: the list must not be empty, all shapes must agree and
  dimension 1 must exist in the result.
\<close>

definition stack_dim1 :: "shape list \<Rightarrow> py_error + shape" where
  "stack_dim1 ts =
     (case ts of
        [] \<Rightarrow> Inl RuntimeError
      | s # rest \<Rightarrow>
          if list_all (\<lambda>s'. s' = s) rest \<and> 1 \<le> length s
          then Inr (take 1 s @ [length ts] @ drop 1 s) else Inl RuntimeError)"

text \<open>\<open>x.shape[i]\<close> and \<open>x.shape[-1]\<close> raise IndexError past the rank.\<close>

definition shape_at :: "shape \<Rightarrow> nat \<Rightarrow> py_error + nat" where
  "shape_at s i = (if i < length s then Inr (s ! i) else Inl IndexError)"

definition shape_last :: "shape \<Rightarrow> py_error + nat" where
  "shape_last s = (if s = [] then Inl IndexError else Inr (last s))"

section \<open>Names bound in the two modules\<close>

text \<open>
  A global name that a function body uses is looked up when the line runs, and
  raises NameError when the module binds no such name. The names each module binds at
  top level are its imports and its class definitions:
  View_feature_extractor.py, lines 1-12, 14, 115 and 435, and
  View_feature_extractor_net.py, lines 1-2 and the class statements.
\<close>

type_synonym globals = "string list"

definition View_feature_extractor_globals :: globals where
  "View_feature_extractor_globals =
     [''Path'', ''pl'', ''torch'', ''nn'', ''F'', ''np'', ''imsave'', ''LambdaLR'', ''tqdm'',
      ''NoisyTargetViewEncoder'', ''SpatialTime3DNet'', ''FrustumTV3DNet'',
      ''SpatialVolumeNet'', ''SyncMultiviewDiffusion'']"

definition View_feature_extractor_net_globals :: globals where
  "View_feature_extractor_net_globals =
     [''torch'', ''nn'', ''Image2DResBlockWithTV'', ''NoisyTargetViewEncoder'',
      ''SpatialUpTimeBlock'', ''SpatialTimeBlock'', ''SpatialTime3DNet'', ''FrustumTVBlock'',
      ''FrustumTVUpBlock'', ''FrustumTV3DNet'', ''SpatialVolumeNet'']"

definition resolve :: "globals \<Rightarrow> string \<Rightarrow> py_error + unit" where
  "resolve g name = (if name \<in> set g then Inr () else Inl (NameError name))"

text \<open>
  The two geometry helpers are called but defined in no file of the repository. What a
  call would do \<^emph>\<open>if\<close> a module bound the name is a parameter of the model: on shapes,
  any function of the arguments that returns a shape or raises.
\<close>

record externals =
  get_warp_coordinates_impl :: "shape \<Rightarrow> nat \<Rightarrow> nat \<Rightarrow> shape \<Rightarrow> shape \<Rightarrow> py_error + shape"
  create_target_volume_impl ::
    "nat \<Rightarrow> nat \<Rightarrow> nat \<Rightarrow> shape \<Rightarrow> shape \<Rightarrow> shape \<Rightarrow> shape \<Rightarrow> py_error + (shape \<times> shape)"

section \<open>SyncMultiviewDiffusion: loading the camera metadata\<close>

text \<open>
  \<open>_init_multiview(self)\<close>, lines 164-175 of View_feature_extractor.py. The pickle
  holds a tuple \<open>K, azs, _, _, poses\<close>; the method registers the buffers \<open>poses\<close>,
  \<open>Ks\<close> and \<open>azimuth\<close>. \<open>read_pickle\<close> is a name the method calls; what the call
  would return if the module bound the name is the parameter \<open>read_pickle_impl\<close>, a
  function of \<open>view_num\<close> (which fixes the file name). The callee is looked up before
  anything else on line 165.
\<close>

record camera_info =
  cam_K :: "real list list"
  cam_azs :: "real list"
  cam_poses :: "real list list list"

record camera_buffers =
  buf_poses :: "real list list list"
  buf_Ks :: "real list list list"
  buf_azimuth :: "real list"

text \<open>\<open>np.diag(d) @ K\<close>: row \<open>i\<close> of \<open>K\<close> scaled by \<open>d[i]\<close>; ValueError on a size mismatch.\<close>

definition diag_matmul :: "real list \<Rightarrow> real list list \<Rightarrow> py_error + real list list" where
  "diag_matmul d K =
     (if length K = length d then Inr (map (\<lambda>(r, row). map (\<lambda>x. r * x) row) (zip d K))
      else Inl ValueError)"

definition init_multiview ::
  "globals \<Rightarrow> (nat \<Rightarrow> py_error + camera_info) \<Rightarrow> nat \<Rightarrow> nat \<Rightarrow> py_error + camera_buffers" where
  "init_multiview g read_pickle_impl view_num image_size =
     bind_err (resolve g ''read_pickle'') (\<lambda>_.
     bind_err (read_pickle_impl view_num) (\<lambda>info.
     (let default_image_size = 256;
          ratio = real image_size / default_image_size in
      bind_err (resolve g ''np'') (\<lambda>_.
      bind_err (diag_matmul [ratio, ratio, 1] (cam_K info)) (\<lambda>K.
      bind_err (resolve g ''torch'') (\<lambda>_.
      (let K = replicate view_num K;
           poses = cam_poses info;
           azs = map normalize_azimuth (cam_azs info)
       in Inr \<lparr> buf_poses = poses, buf_Ks = K, buf_azimuth = azs \<rparr>)))))))"

subsection \<open>The second definition of the class\<close>

text \<open>
  View_feature_extractor.py defines \<open>SyncMultiviewDiffusion\<close> a second time (lines
  435-752); the class statement rebinds the name, so the module exports the second
  definition. Its \<open>_init_multiview\<close> (lines 484-495) and \<open>get_viewpoint_embedding\<close>
  (lines 498-516), transcribed from those lines.
\<close>

definition init_multiview2 ::
  "globals \<Rightarrow> (nat \<Rightarrow> py_error + camera_info) \<Rightarrow> nat \<Rightarrow> nat \<Rightarrow> py_error + camera_buffers" where
  "init_multiview2 g read_pickle_impl view_num image_size =
     bind_err (resolve g ''read_pickle'') (\<lambda>_.
     bind_err (read_pickle_impl view_num) (\<lambda>info.
     (let default_image_size = 256;
          ratio = real image_size / default_image_size in
      bind_err (resolve g ''np'') (\<lambda>_.
      bind_err (diag_matmul [ratio, ratio, 1] (cam_K info)) (\<lambda>K.
      bind_err (resolve g ''torch'') (\<lambda>_.
      (let K = replicate view_num K;
           poses = cam_poses info;
           azs = map (\<lambda>a. np_mod (a + pi) (pi * 2) - pi) (cam_azs info)
       in Inr \<lparr> buf_poses = poses, buf_Ks = K, buf_azimuth = azs \<rparr>)))))))"

definition get_viewpoint_embedding2 ::
  "real list \<Rightarrow> nat \<Rightarrow> real list \<Rightarrow> py_error + real list list list" where
  "get_viewpoint_embedding2 azimuth batch_size elevation_ref =
     (case azimuth of
        [] \<Rightarrow> Inl IndexError
      | az0 # _ \<Rightarrow>
          (let azimuth_input = az0;
               azimuth_target = azimuth;
               elevation_input = map uminus elevation_ref;
               elevation_target = - deg2rad 30;
               d_e0 = map (\<lambda>e. elevation_target - e) elevation_input;
               N = length azimuth;
               B = batch_size;
               d_e = map (replicate N) d_e0;
               d_a0 = map (\<lambda>a. a - azimuth_input) azimuth_target;
               d_a = replicate B d_a0;
               d_z = map (map (\<lambda>_. 0)) d_a
           in if length d_e \<noteq> length d_a then Inl RuntimeError
              else Inr (map (\<lambda>b. map (\<lambda>n. [d_e ! b ! n, sin (d_a ! b ! n),
                                                cos (d_a ! b ! n), d_z ! b ! n])
                                      [0..<N])
                            [0..<B])))"

section \<open>SpatialVolumeNet\<close>

text \<open>
  The attributes \<open>SpatialVolumeNet.__init__\<close> stores (View_feature_extractor.py, lines
  14-34; the copy in View_feature_extractor_net.py, lines 194-214, has the same text).
\<close>

record SpatialVolumeNet =
  target_encoder :: NoisyTargetViewEncoder
  spatial_volume_feats :: SpatialTime3DNet
  frustum_volume_feats :: FrustumTV3DNet
  frustum_volume_length :: real
  input_image_size :: nat
  spatial_volume_size :: nat
  spatial_volume_length :: real
  frustum_volume_size :: nat
  frustum_volume_depth :: nat
  time_dim :: nat
  view_dim :: nat
  default_origin_depth :: real

definition SpatialVolumeNet_init ::
  "nat \<Rightarrow> nat \<Rightarrow> nat \<Rightarrow> nat \<Rightarrow> nat \<Rightarrow> nat \<Rightarrow> real \<Rightarrow> real \<Rightarrow> py_error + SpatialVolumeNet" where
  "SpatialVolumeNet_init tdim vdim vnum image_size fdepth svsize svlength fvlength =
     bind_err (NoisyTargetViewEncoder_init tdim vdim 16 16) (\<lambda>enc.
     bind_err (SpatialTime3DNet_init tdim (16 * vnum) [64, 128, 256, 512]) (\<lambda>sv.
     bind_err (FrustumTV3DNet_init 64 tdim vdim [64, 128, 256, 512]) (\<lambda>fv.
       Inr \<lparr> target_encoder = enc,
             spatial_volume_feats = sv,
             frustum_volume_feats = fv,
             frustum_volume_length = fvlength,
             input_image_size = image_size,
             spatial_volume_size = svsize,
             spatial_volume_length = svlength,
             frustum_volume_size = image_size div 8,
             frustum_volume_depth = fdepth,
             time_dim = tdim,
             view_dim = vdim,
             default_origin_depth = 15 / 10 \<rparr>)))"

text \<open>The constructor with the keyword defaults of its signature.\<close>

definition SpatialVolumeNet_default :: "nat \<Rightarrow> nat \<Rightarrow> nat \<Rightarrow> py_error + SpatialVolumeNet" where
  "SpatialVolumeNet_default tdim vdim vnum =
     SpatialVolumeNet_init tdim vdim vnum 256 48 32 (5 / 10) (86603 / 100000)"

text \<open>
  Lines 97-98 of \<open>construct_view_frustum_volume\<close>:
  \<^verbatim>\<open>near = torch.ones(B * TN, 1, H, W) * self.default_origin_depth - self.frustum_volume_length\<close>
  and the same with \<open>+\<close> for \<open>far\<close>, where \<open>H = W = self.frustum_volume_size\<close>.
\<close>

definition frustum_near :: "SpatialVolumeNet \<Rightarrow> nat \<Rightarrow> nat \<Rightarrow> real list list list list" where
  "frustum_near self B TN =
     (let H = frustum_volume_size self; W = frustum_volume_size self
      in map4 (\<lambda>x. x * default_origin_depth self - frustum_volume_length self)
           (ones4 (B * TN) 1 H W))"

definition frustum_far :: "SpatialVolumeNet \<Rightarrow> nat \<Rightarrow> nat \<Rightarrow> real list list list list" where
  "frustum_far self B TN =
     (let H = frustum_volume_size self; W = frustum_volume_size self
      in map4 (\<lambda>x. x * default_origin_depth self + frustum_volume_length self)
           (ones4 (B * TN) 1 H W))"

text \<open>The shape of a rank-4 tensor given by its entries.\<close>

definition shape4 :: "real list list list list \<Rightarrow> nat \<Rightarrow> nat \<Rightarrow> nat \<Rightarrow> shape" where
  "shape4 t c h w = [length t, c, h, w]"

subsection \<open>construct_spatial_volume\<close>

text \<open>
  The body of the loop \<open>for ni in range(0, N)\<close> (lines 64-73), for one \<open>ni\<close>: the
  feature volume appended to \<open>spatial_volume_feats\<close> and the value left in \<open>C\<close>.
  \<open>g\<close> is the table of names the module binds, \<open>ext\<close> what the helper would do if
  bound. The callee of a call is looked up before its arguments are evaluated.
\<close>

definition project_source_view ::
  "globals \<Rightarrow> externals \<Rightarrow> SpatialVolumeNet \<Rightarrow> shape \<Rightarrow> shape \<Rightarrow> shape \<Rightarrow> shape \<Rightarrow> shape
     \<Rightarrow> shape \<Rightarrow> nat \<Rightarrow> nat \<Rightarrow> nat \<Rightarrow> py_error + (shape \<times> nat)" where
  "project_source_view g ext self x t_embed' v_embed' target_poses target_Ks
       spatial_volume_verts B V ni =
     bind_err (select_dim1 target_poses ni) (\<lambda>pose_source'.
     bind_err (select_dim1 target_Ks ni) (\<lambda>K_source'.
     bind_err (select_dim1 x ni) (\<lambda>x_ni.
     bind_err (select_dim1 t_embed' ni) (\<lambda>t_ni.
     bind_err (select_dim1 v_embed' ni) (\<lambda>v_ni.
     bind_err (NoisyTargetViewEncoder_forward (target_encoder self) x_ni t_ni v_ni) (\<lambda>x'.
     bind_err (shape_at x' 1) (\<lambda>C.
     bind_err (resolve g ''get_warp_coordinates'') (\<lambda>_.
     bind_err (shape_last x') (\<lambda>w.
     bind_err (get_warp_coordinates_impl ext spatial_volume_verts w (input_image_size self)
                 K_source' pose_source') (\<lambda>coords.
     bind_err (view_shape coords [B, V, V * V, 2]) (\<lambda>coords_source.
     bind_err (resolve g ''F'') (\<lambda>_.
     bind_err (grid_sample x' coords_source) (\<lambda>unproj_feats'.
     bind_err (view_shape unproj_feats' [B, C, V, V, V]) (\<lambda>unproj_feats'.
       Inr (unproj_feats', C)))))))))))))))"

text \<open>
  The loop: \<open>feats\<close> is the list built so far, \<open>C\<close> the value the last pass assigned
  (none before the first pass; the code reads it only after the loop).
\<close>

fun project_source_views ::
  "globals \<Rightarrow> externals \<Rightarrow> SpatialVolumeNet \<Rightarrow> shape \<Rightarrow> shape \<Rightarrow> shape \<Rightarrow> shape \<Rightarrow> shape
     \<Rightarrow> shape \<Rightarrow> nat \<Rightarrow> nat \<Rightarrow> nat list \<Rightarrow> shape list \<times> nat option
     \<Rightarrow> py_error + (shape list \<times> nat option)" where
  "project_source_views g ext self x t_embed' v_embed' target_poses target_Ks
       spatial_volume_verts B V [] acc = Inr acc"
| "project_source_views g ext self x t_embed' v_embed' target_poses target_Ks
       spatial_volume_verts B V (ni # nis) (feats, C) =
     bind_err (project_source_view g ext self x t_embed' v_embed' target_poses target_Ks
                 spatial_volume_verts B V ni) (\<lambda>(unproj_feats', C').
       project_source_views g ext self x t_embed' v_embed' target_poses target_Ks
         spatial_volume_verts B V nis (feats @ [unproj_feats'], Some C'))"

text \<open>
  \<open>construct_spatial_volume(self, x, t_embed, v_embed, target_poses, target_Ks)\<close>,
  lines 36-80. \<open>B, N, _, H, W = x.shape\<close> raises ValueError unless \<open>x\<close> has rank 5.
  The grid of voxel centres (lines 49-52) is \<open>linspace\<close> of \<open>V\<close> points, \<open>meshgrid\<close>
  and \<open>stack\<close> to \<open>(V, V, V, 3)\<close>, then reshape, reorder of the last axis, view, permute
  and repeat.
\<close>

definition construct_spatial_volume ::
  "globals \<Rightarrow> externals \<Rightarrow> SpatialVolumeNet \<Rightarrow> shape \<Rightarrow> shape \<Rightarrow> shape \<Rightarrow> shape \<Rightarrow> shape
     \<Rightarrow> py_error + shape" where
  "construct_spatial_volume g ext self x t_embed v_embed target_poses target_Ks =
     (case x of
        [B, N, c, H, W] \<Rightarrow>
          (let V = spatial_volume_size self in
           bind_err (resolve g ''torch'') (\<lambda>_.
           bind_err (view_shape [V, V, V, 3] [1, V ^ 3, 3]) (\<lambda>verts.
           bind_err (view_shape verts [1, V, V, V, 3]) (\<lambda>verts.
           bind_err (permute verts [0, 4, 1, 2, 3]) (\<lambda>verts.
           bind_err (repeat verts [B, 1, 1, 1, 1]) (\<lambda>spatial_volume_verts.
           bind_err (view_shape t_embed [B, 1, time_dim self]) (\<lambda>t1.
           bind_err (repeat t1 [1, N, 1]) (\<lambda>t2.
           bind_err (view_shape t2 [B, N, time_dim self]) (\<lambda>t_embed'.
           (let v_embed' = v_embed in
           bind_err (unsqueeze 0 target_Ks) (\<lambda>k1.
           bind_err (repeat k1 [B, 1, 1, 1]) (\<lambda>target_Ks.
           bind_err (unsqueeze 0 target_poses) (\<lambda>p1.
           bind_err (repeat p1 [B, 1, 1, 1]) (\<lambda>target_poses.
           bind_err (project_source_views g ext self x t_embed' v_embed' target_poses
                       target_Ks spatial_volume_verts B V [0..<N] ([], None))
             (\<lambda>(feats_list, C).
           bind_err (stack_dim1 feats_list) (\<lambda>stacked.
           bind_err (shape_at stacked 1) (\<lambda>N.
           bind_err (view_shape stacked [B, N * the C, V, V, V]) (\<lambda>feats.
           SpatialTime3DNet_forward (spatial_volume_feats self) feats t_embed
           ))))))))))))))))))
      | _ \<Rightarrow> Inl ValueError)"

subsection \<open>construct_view_frustum_volume\<close>

text \<open>
  \<open>construct_view_frustum_volume(self, spatial_volume, t_embed, v_embed, poses, Ks,
  target_indices)\<close>, lines 82-113. \<open>B, TN = target_indices.shape\<close> raises ValueError
  unless the index tensor has rank 2. The tables are indexed (lines 101-102) before
  \<open>create_target_volume\<close> is looked up (line 103). The result is the feature pyramid
  and the depth volume the helper returned.
\<close>

definition construct_view_frustum_volume ::
  "globals \<Rightarrow> externals \<Rightarrow> SpatialVolumeNet \<Rightarrow> shape \<Rightarrow> shape \<Rightarrow> shape \<Rightarrow> shape \<Rightarrow> shape
     \<Rightarrow> index_tensor \<Rightarrow> py_error + ((nat \<times> shape) list \<times> shape)" where
  "construct_view_frustum_volume g ext self spatial_volume t_embed v_embed poses Ks
       target_indices =
     (case ishape target_indices of
        [B, TN] \<Rightarrow>
          (let H = frustum_volume_size self; W = frustum_volume_size self;
               D = frustum_volume_depth self; V = spatial_volume_size self in
           bind_err (resolve g ''torch'') (\<lambda>_.
           (let near = shape4 (frustum_near self B TN) 1 H W;
                far = shape4 (frustum_far self B TN) 1 H W;
                target_indices = idata target_indices in
           bind_err (index_rows poses target_indices) (\<lambda>poses'.
           bind_err (index_rows Ks target_indices) (\<lambda>Ks'.
           bind_err (resolve g ''create_target_volume'') (\<lambda>_.
           bind_err (create_target_volume_impl ext D (frustum_volume_size self)
                       (input_image_size self) poses' Ks' near far)
             (\<lambda>(volume_xyz, volume_depth).
           (let volume_xyz' = volume_xyz in
           bind_err (permute volume_xyz' [0, 2, 3, 4, 1]) (\<lambda>volume_xyz'.
           bind_err (unsqueeze 1 spatial_volume) (\<lambda>s1.
           bind_err (repeat s1 [1, TN, 1, 1, 1, 1]) (\<lambda>s2.
           bind_err (view_infer s2 [B * TN] [V, V, V]) (\<lambda>spatial_volume'.
           bind_err (resolve g ''F'') (\<lambda>_.
           bind_err (grid_sample spatial_volume' volume_xyz') (\<lambda>volume_feats.
           bind_err (index_pairs v_embed B TN target_indices) (\<lambda>v1.
           bind_err (view_infer v1 [B * TN] []) (\<lambda>v_embed'.
           bind_err (unsqueeze 1 t_embed) (\<lambda>t1.
           bind_err (repeat t1 [1, TN, 1]) (\<lambda>t2.
           bind_err (view_infer t2 [B * TN] []) (\<lambda>t_embed'.
           bind_err (FrustumTV3DNet_forward (frustum_volume_feats self) volume_feats
                       t_embed' v_embed') (\<lambda>volume_feats_dict.
             Inr (volume_feats_dict, volume_depth)))))))))))))))))))))
      | _ \<Rightarrow> Inl ValueError)"

section \<open>Tensors in a store: what a forward pass reads, allocates and overwrites\<close>

text \<open>
  A \<open>torch.Tensor\<close> is a view onto a storage. The model keeps the storages in a heap and
  a tensor as the address of its storage with the metadata of the view (shape, strides,
  offset). Contents and metadata are left abstract. A world is the heap and the next free
  address. A Python call is a state transformer that returns a value or raises; what it
  wrote before raising stays written.
\<close>

type_synonym addr = nat

record 'm tensor =
  storage :: addr
  meta :: 'm

record 'v world =
  heap :: "addr \<Rightarrow> 'v option"
  brk :: addr

type_synonym ('v, 'a) call = "'v world \<Rightarrow> (py_error + 'a) \<times> 'v world"

definition return_ok :: "'a \<Rightarrow> ('v, 'a) call" where
  "return_ok x = (\<lambda>w. (Inr x, w))"

definition raise_err :: "py_error \<Rightarrow> ('v, 'a) call" where
  "raise_err e = (\<lambda>w. (Inl e, w))"

definition lift_err :: "py_error + 'a \<Rightarrow> ('v, 'a) call" where
  "lift_err r = (\<lambda>w. (r, w))"

definition then_do :: "('v, 'a) call \<Rightarrow> ('a \<Rightarrow> ('v, 'b) call) \<Rightarrow> ('v, 'b) call" where
  "then_do m f = (\<lambda>w. case m w of (Inl e, w') \<Rightarrow> (Inl e, w') | (Inr x, w') \<Rightarrow> f x w')"

text \<open>
  The tensor runtime, as far as the model needs it. An operation is named by a label and
  its numeric arguments. \<open>kernel\<close> is an operation that computes a new tensor from the
  metadata and contents of its arguments, or raises; \<open>reshape\<close> is an operation that
  returns a view (\<open>view\<close>, \<open>permute\<close>, \<open>unsqueeze\<close>, \<open>x[:, i]\<close>): new metadata on the
  same storage, or raises; \<open>kernel_inplace\<close> gives the new contents of the storage that an
  in-place operation overwrites; \<open>shape_of\<close> reads \<open>x.shape\<close>.
\<close>

type_synonym op = "string \<times> real list"

record ('m, 'v) runtime =
  kernel :: "op \<Rightarrow> ('m \<times> 'v) list \<Rightarrow> py_error + ('m \<times> 'v)"
  reshape :: "op \<Rightarrow> 'm \<Rightarrow> py_error + 'm"
  kernel_inplace :: "op \<Rightarrow> 'm \<Rightarrow> 'v \<Rightarrow> 'v"
  shape_of :: "'m \<Rightarrow> nat list"

fun read_all :: "'v world \<Rightarrow> 'm tensor list \<Rightarrow> py_error + ('m \<times> 'v) list" where
  "read_all w [] = Inr []"
| "read_all w (t # ts) =
     (case heap w (storage t) of
        None \<Rightarrow> Inl RuntimeError
      | Some v \<Rightarrow> bind_err (read_all w ts) (\<lambda>vs. Inr ((meta t, v) # vs)))"

text \<open>An out-of-place operation: the result lives in a fresh storage.\<close>

definition run_kernel :: "('m, 'v) runtime \<Rightarrow> op \<Rightarrow> 'm tensor list \<Rightarrow> ('v, 'm tensor) call" where
  "run_kernel R f ts =
     (\<lambda>w. case bind_err (read_all w ts) (kernel R f) of
             Inl e \<Rightarrow> (Inl e, w)
           | Inr (m, v) \<Rightarrow>
               (Inr \<lparr> storage = brk w, meta = m \<rparr>,
                w \<lparr> heap := (heap w)(brk w \<mapsto> v), brk := Suc (brk w) \<rparr>))"

text \<open>A view: the result shares the storage of its argument.\<close>

definition run_view :: "('m, 'v) runtime \<Rightarrow> op \<Rightarrow> 'm tensor \<Rightarrow> ('v, 'm tensor) call" where
  "run_view R f t =
     (\<lambda>w. case reshape R f (meta t) of
             Inl e \<Rightarrow> (Inl e, w)
           | Inr m \<Rightarrow> (Inr \<lparr> storage = storage t, meta = m \<rparr>, w))"

text \<open>An in-place operation: the storage of the argument is overwritten.\<close>

definition run_inplace :: "('m, 'v) runtime \<Rightarrow> op \<Rightarrow> 'm tensor \<Rightarrow> ('v, 'm tensor) call" where
  "run_inplace R f t =
     (\<lambda>w. case heap w (storage t) of
             None \<Rightarrow> (Inl RuntimeError, w)
           | Some v \<Rightarrow>
               (Inr t, w \<lparr> heap := (heap w)(storage t \<mapsto> kernel_inplace R f (meta t) v) \<rparr>))"

text \<open>
  A module holds its parameter tensors under dotted names, as \<open>state_dict()\<close> lists them;
  a layer is called on its input with its weight and bias. \<open>nn.SiLU(True)\<close> is the
  in-place SiLU (the positional argument of \<open>nn.SiLU\<close> is \<open>inplace\<close>).
\<close>

type_synonym 'm module = "string \<Rightarrow> 'm tensor"

definition sub :: "'m module \<Rightarrow> string \<Rightarrow> 'm module" where
  "sub self name = (\<lambda>n. self (name @ ''.'' @ n))"

definition layer :: "('m, 'v) runtime \<Rightarrow> op \<Rightarrow> 'm module \<Rightarrow> 'm tensor \<Rightarrow> ('v, 'm tensor) call" where
  "layer R f self x = run_kernel R f [x, self ''weight'', self ''bias'']"

definition SiLU_inplace :: "('m, 'v) runtime \<Rightarrow> 'm tensor \<Rightarrow> ('v, 'm tensor) call" where
  "SiLU_inplace R x = run_inplace R (''silu_'', []) x"

definition tensor_plus :: "('m, 'v) runtime \<Rightarrow> 'm tensor \<Rightarrow> 'm tensor \<Rightarrow> ('v, 'm tensor) call" where
  "tensor_plus R x y = run_kernel R (''add'', []) [x, y]"

text \<open>\<open>a, b = t.shape\<close> and the like: ValueError unless the rank is as expected.\<close>

definition unpack_shape :: "('m, 'v) runtime \<Rightarrow> nat \<Rightarrow> 'm tensor \<Rightarrow> ('v, nat list) call" where
  "unpack_shape R n t =
     (if length (shape_of R (meta t)) = n then return_ok (shape_of R (meta t))
      else raise_err ValueError)"

subsection \<open>The networks, with their effects\<close>

text \<open>
  \<open>Image2DResBlockWithTV.forward\<close>; \<open>self.conv\<close> is the \<open>nn.Sequential\<close> of lines 11-18,
  whose entries 1 and 4 are the in-place SiLU.
\<close>

definition Image2DResBlockWithTV_call ::
  "('m, 'v) runtime \<Rightarrow> 'm module \<Rightarrow> 'm tensor \<Rightarrow> 'm tensor \<Rightarrow> 'm tensor \<Rightarrow> ('v, 'm tensor) call" where
  "Image2DResBlockWithTV_call R self x t v =
     then_do (layer R (''conv2d'', [1, 1, 0]) (sub self ''time_embed'') t) (\<lambda>te.
     then_do (tensor_plus R x te) (\<lambda>xt.
     then_do (layer R (''conv2d'', [1, 1, 0]) (sub self ''view_embed'') v) (\<lambda>ve.
     then_do (tensor_plus R xt ve) (\<lambda>a.
     then_do (layer R (''group_norm'', [8]) (sub self ''conv.0'') a) (\<lambda>g.
     then_do (SiLU_inplace R g) (\<lambda>g.
     then_do (layer R (''conv2d'', [3, 1, 1]) (sub self ''conv.2'') g) (\<lambda>c.
     then_do (layer R (''group_norm'', [8]) (sub self ''conv.3'') c) (\<lambda>g.
     then_do (SiLU_inplace R g) (\<lambda>g.
     then_do (layer R (''conv2d'', [3, 1, 1]) (sub self ''conv.5'') g) (\<lambda>c.
     tensor_plus R x c))))))))))"

text \<open>\<open>NoisyTargetViewEncoder.forward\<close>.\<close>

definition NoisyTargetViewEncoder_call ::
  "('m, 'v) runtime \<Rightarrow> 'm module \<Rightarrow> 'm tensor \<Rightarrow> 'm tensor \<Rightarrow> 'm tensor \<Rightarrow> ('v, 'm tensor) call" where
  "NoisyTargetViewEncoder_call R self x t v =
     then_do (unpack_shape R 2 t) (\<lambda>s.
     then_do (run_view R (''view'', [real (s ! 0), real (s ! 1), 1, 1]) t) (\<lambda>t.
     then_do (unpack_shape R 2 v) (\<lambda>s.
     then_do (run_view R (''view'', [real (s ! 0), real (s ! 1), 1, 1]) v) (\<lambda>v.
     then_do (layer R (''conv2d'', [3, 1, 1]) (sub self ''init_conv'') x) (\<lambda>x.
     then_do (Image2DResBlockWithTV_call R (sub self ''out_conv0'') x t v) (\<lambda>x.
     then_do (Image2DResBlockWithTV_call R (sub self ''out_conv1'') x t v) (\<lambda>x.
     then_do (Image2DResBlockWithTV_call R (sub self ''out_conv2'') x t v) (\<lambda>x.
     then_do (layer R (''group_norm'', [8]) (sub self ''final_out.0'') x) (\<lambda>g.
     then_do (SiLU_inplace R g) (\<lambda>g.
     layer R (''conv2d'', [3, 1, 1]) (sub self ''final_out.2'') g))))))))))"

text \<open>
  \<open>SpatialTimeBlock.forward\<close> and \<open>SpatialUpTimeBlock.forward\<close>; \<open>conv\<close> names the
  last convolution with its kernel size, stride and padding.
\<close>

definition SpatialTimeBlock_call ::
  "('m, 'v) runtime \<Rightarrow> op \<Rightarrow> 'm module \<Rightarrow> 'm tensor \<Rightarrow> 'm tensor \<Rightarrow> ('v, 'm tensor) call" where
  "SpatialTimeBlock_call R conv self x t =
     then_do (layer R (''conv3d'', [1, 1, 0]) (sub self ''t_conv'') t) (\<lambda>tc.
     then_do (tensor_plus R x tc) (\<lambda>x.
     then_do (layer R (''group_norm'', [8]) (sub self ''bn'') x) (\<lambda>g.
     then_do (SiLU_inplace R g) (\<lambda>g.
     layer R conv (sub self ''conv'') g))))"

definition SpatialUpTimeBlock_call ::
  "('m, 'v) runtime \<Rightarrow> 'm module \<Rightarrow> 'm tensor \<Rightarrow> 'm tensor \<Rightarrow> ('v, 'm tensor) call" where
  "SpatialUpTimeBlock_call R self x t =
     then_do (layer R (''conv3d'', [1, 1, 0]) (sub self ''t_conv'') t) (\<lambda>tc.
     then_do (tensor_plus R x tc) (\<lambda>x.
     then_do (layer R (''group_norm'', [8]) (sub self ''norm'') x) (\<lambda>g.
     then_do (SiLU_inplace R g) (\<lambda>g.
     layer R (''conv_transpose3d'', [3, 2, 1, 1]) (sub self ''conv'') g))))"

text \<open>\<open>SpatialTime3DNet.forward\<close>.\<close>

definition SpatialTime3DNet_call ::
  "('m, 'v) runtime \<Rightarrow> 'm module \<Rightarrow> 'm tensor \<Rightarrow> 'm tensor \<Rightarrow> ('v, 'm tensor) call" where
  "SpatialTime3DNet_call R self x t =
     then_do (unpack_shape R 2 t) (\<lambda>s.
     then_do (run_view R (''view'', [real (s ! 0), real (s ! 1), 1, 1, 1]) t) (\<lambda>t.
     then_do (layer R (''conv3d'', [3, 1, 1]) (sub self ''init_conv'') x) (\<lambda>x.
     then_do (SpatialTimeBlock_call R (''conv3d'', [3, 1, 1]) (sub self ''conv0'') x t) (\<lambda>conv0.
     then_do (SpatialTimeBlock_call R (''conv3d'', [3, 2, 1]) (sub self ''conv1'') conv0 t) (\<lambda>x.
     then_do (SpatialTimeBlock_call R (''conv3d'', [3, 1, 1]) (sub self ''conv2_0'') x t) (\<lambda>x.
     then_do (SpatialTimeBlock_call R (''conv3d'', [3, 1, 1]) (sub self ''conv2_1'') x t) (\<lambda>conv2.
     then_do (SpatialTimeBlock_call R (''conv3d'', [3, 2, 1]) (sub self ''conv3'') conv2 t) (\<lambda>x.
     then_do (SpatialTimeBlock_call R (''conv3d'', [3, 1, 1]) (sub self ''conv4_0'') x t) (\<lambda>x.
     then_do (SpatialTimeBlock_call R (''conv3d'', [3, 1, 1]) (sub self ''conv4_1'') x t) (\<lambda>conv4.
     then_do (SpatialTimeBlock_call R (''conv3d'', [3, 2, 1]) (sub self ''conv5'') conv4 t) (\<lambda>x.
     then_do (SpatialTimeBlock_call R (''conv3d'', [3, 1, 1]) (sub self ''conv6_0'') x t) (\<lambda>x.
     then_do (SpatialTimeBlock_call R (''conv3d'', [3, 1, 1]) (sub self ''conv6_1'') x t) (\<lambda>x.
     then_do (SpatialUpTimeBlock_call R (sub self ''conv7'') x t) (\<lambda>u.
     then_do (tensor_plus R conv4 u) (\<lambda>x.
     then_do (SpatialUpTimeBlock_call R (sub self ''conv8'') x t) (\<lambda>u.
     then_do (tensor_plus R conv2 u) (\<lambda>x.
     then_do (SpatialUpTimeBlock_call R (sub self ''conv9'') x t) (\<lambda>u.
     tensor_plus R conv0 u))))))))))))))))))"

text \<open>\<open>FrustumTVBlock.forward\<close> and \<open>FrustumTVUpBlock.forward\<close>.\<close>

definition FrustumTVBlock_call ::
  "('m, 'v) runtime \<Rightarrow> op \<Rightarrow> 'm module \<Rightarrow> 'm tensor \<Rightarrow> 'm tensor \<Rightarrow> 'm tensor
     \<Rightarrow> ('v, 'm tensor) call" where
  "FrustumTVBlock_call R conv self x t v =
     then_do (layer R (''conv3d'', [1, 1, 0]) (sub self ''t_conv'') t) (\<lambda>tc.
     then_do (tensor_plus R x tc) (\<lambda>xt.
     then_do (layer R (''conv3d'', [1, 1, 0]) (sub self ''v_conv'') v) (\<lambda>vc.
     then_do (tensor_plus R xt vc) (\<lambda>x.
     then_do (layer R (''group_norm'', [8]) (sub self ''bn'') x) (\<lambda>g.
     then_do (SiLU_inplace R g) (\<lambda>g.
     layer R conv (sub self ''conv'') g))))))"

definition FrustumTVUpBlock_call ::
  "('m, 'v) runtime \<Rightarrow> 'm module \<Rightarrow> 'm tensor \<Rightarrow> 'm tensor \<Rightarrow> 'm tensor \<Rightarrow> ('v, 'm tensor) call" where
  "FrustumTVUpBlock_call R self x t v =
     then_do (layer R (''conv3d'', [1, 1, 0]) (sub self ''t_conv'') t) (\<lambda>tc.
     then_do (tensor_plus R x tc) (\<lambda>xt.
     then_do (layer R (''conv3d'', [1, 1, 0]) (sub self ''v_conv'') v) (\<lambda>vc.
     then_do (tensor_plus R xt vc) (\<lambda>x.
     then_do (layer R (''group_norm'', [8]) (sub self ''norm'') x) (\<lambda>g.
     then_do (SiLU_inplace R g) (\<lambda>g.
     layer R (''conv_transpose3d'', [3, 2, 1, 1]) (sub self ''conv'') g))))))"

text \<open>\<open>FrustumTV3DNet.forward\<close>; the dict is built as in the shape model.\<close>

definition FrustumTV3DNet_call ::
  "('m, 'v) runtime \<Rightarrow> 'm module \<Rightarrow> 'm tensor \<Rightarrow> 'm tensor \<Rightarrow> 'm tensor
     \<Rightarrow> ('v, (nat \<times> 'm tensor) list) call" where
  "FrustumTV3DNet_call R self x t v =
     then_do (unpack_shape R 2 t) (\<lambda>s.
     then_do (run_view R (''view'', [real (s ! 0), real (s ! 1), 1, 1, 1]) t) (\<lambda>t.
     then_do (unpack_shape R 2 v) (\<lambda>s.
     then_do (run_view R (''view'', [real (s ! 0), real (s ! 1), 1, 1, 1]) v) (\<lambda>v.
     then_do (unpack_shape R 5 x) (\<lambda>s.
     then_do (layer R (''conv3d'', [3, 1, 1]) (sub self ''conv0'') x) (\<lambda>x0.
     then_do (FrustumTVBlock_call R (''conv3d'', [3, 2, 1]) (sub self ''conv1'') x0 t v) (\<lambda>a.
     then_do (FrustumTVBlock_call R (''conv3d'', [3, 1, 1]) (sub self ''conv2'') a t v) (\<lambda>x1.
     then_do (FrustumTVBlock_call R (''conv3d'', [3, 2, 1]) (sub self ''conv3'') x1 t v) (\<lambda>a.
     then_do (FrustumTVBlock_call R (''conv3d'', [3, 1, 1]) (sub self ''conv4'') a t v) (\<lambda>x2.
     then_do (FrustumTVBlock_call R (''conv3d'', [3, 2, 1]) (sub self ''conv5'') x2 t v) (\<lambda>a.
     then_do (FrustumTVBlock_call R (''conv3d'', [3, 1, 1]) (sub self ''conv6'') a t v) (\<lambda>x3.
     then_do (FrustumTVUpBlock_call R (sub self ''up0'') x3 t v) (\<lambda>u.
     then_do (tensor_plus R u x2) (\<lambda>x2.
     then_do (FrustumTVUpBlock_call R (sub self ''up1'') x2 t v) (\<lambda>u.
     then_do (tensor_plus R u x1) (\<lambda>x1.
     then_do (FrustumTVUpBlock_call R (sub self ''up2'') x1 t v) (\<lambda>u.
     then_do (tensor_plus R u x0) (\<lambda>x0.
       return_ok (dict_set (dict_set (dict_set (dict_set [] (s ! 4) x0)
                    (s ! 4 div 2) x1) (s ! 4 div 4) x2) (s ! 4 div 8) x3)))))))))))))))))))"

subsection \<open>SpatialVolumeNet, with its effects\<close>

text \<open>
  What a call of a geometry helper would do to the store if a module bound the name.
\<close>

record ('m, 'v) helpers =
  get_warp_coordinates_call ::
    "'m tensor \<Rightarrow> nat \<Rightarrow> nat \<Rightarrow> 'm tensor \<Rightarrow> 'm tensor \<Rightarrow> ('v, 'm tensor) call"
  create_target_volume_call ::
    "nat \<Rightarrow> nat \<Rightarrow> nat \<Rightarrow> 'm tensor \<Rightarrow> 'm tensor \<Rightarrow> 'm tensor \<Rightarrow> 'm tensor
       \<Rightarrow> ('v, 'm tensor \<times> 'm tensor) call"

definition shape_at_call :: "('m, 'v) runtime \<Rightarrow> 'm tensor \<Rightarrow> nat \<Rightarrow> ('v, nat) call" where
  "shape_at_call R t i = lift_err (shape_at (shape_of R (meta t)) i)"

definition shape_last_call :: "('m, 'v) runtime \<Rightarrow> 'm tensor \<Rightarrow> ('v, nat) call" where
  "shape_last_call R t = lift_err (shape_last (shape_of R (meta t)))"

text \<open>
  The body of the loop of \<open>construct_spatial_volume\<close> (lines 64-73) for one \<open>ni\<close>.
  \<open>t[:, ni]\<close> is a view; \<open>F.grid_sample\<close> computes a new tensor. \<open>self\<close> holds the
  attributes that are numbers, \<open>params\<close> the parameter tensors of the three networks.
\<close>

definition project_source_view_call ::
  "('m, 'v) runtime \<Rightarrow> globals \<Rightarrow> ('m, 'v) helpers \<Rightarrow> SpatialVolumeNet \<Rightarrow> 'm module
     \<Rightarrow> 'm tensor \<Rightarrow> 'm tensor \<Rightarrow> 'm tensor \<Rightarrow> 'm tensor \<Rightarrow> 'm tensor \<Rightarrow> 'm tensor
     \<Rightarrow> nat \<Rightarrow> nat \<Rightarrow> nat \<Rightarrow> ('v, 'm tensor \<times> nat) call" where
  "project_source_view_call R g ext self params x t_embed' v_embed' target_poses target_Ks
       spatial_volume_verts B V ni =
     then_do (run_view R (''select'', [1, real ni]) target_poses) (\<lambda>pose_source'.
     then_do (run_view R (''select'', [1, real ni]) target_Ks) (\<lambda>K_source'.
     then_do (run_view R (''select'', [1, real ni]) x) (\<lambda>x_ni.
     then_do (run_view R (''select'', [1, real ni]) t_embed') (\<lambda>t_ni.
     then_do (run_view R (''select'', [1, real ni]) v_embed') (\<lambda>v_ni.
     then_do (NoisyTargetViewEncoder_call R (sub params ''target_encoder'') x_ni t_ni v_ni)
       (\<lambda>x'.
     then_do (shape_at_call R x' 1) (\<lambda>C.
     then_do (lift_err (resolve g ''get_warp_coordinates'')) (\<lambda>_.
     then_do (shape_last_call R x') (\<lambda>w.
     then_do (get_warp_coordinates_call ext spatial_volume_verts w (input_image_size self)
                K_source' pose_source') (\<lambda>coords.
     then_do (run_view R (''view'', [real B, real V, real (V * V), 2]) coords)
       (\<lambda>coords_source.
     then_do (lift_err (resolve g ''F'')) (\<lambda>_.
     then_do (run_kernel R (''grid_sample'', []) [x', coords_source]) (\<lambda>unproj_feats'.
     then_do (run_view R (''view'', [real B, real C, real V, real V, real V]) unproj_feats')
       (\<lambda>unproj_feats'.
       return_ok (unproj_feats', C)))))))))))))))"

fun project_source_views_call ::
  "('m, 'v) runtime \<Rightarrow> globals \<Rightarrow> ('m, 'v) helpers \<Rightarrow> SpatialVolumeNet \<Rightarrow> 'm module
     \<Rightarrow> 'm tensor \<Rightarrow> 'm tensor \<Rightarrow> 'm tensor \<Rightarrow> 'm tensor \<Rightarrow> 'm tensor \<Rightarrow> 'm tensor
     \<Rightarrow> nat \<Rightarrow> nat \<Rightarrow> nat list \<Rightarrow> 'm tensor list \<times> nat option
     \<Rightarrow> ('v, 'm tensor list \<times> nat option) call" where
  "project_source_views_call R g ext self params x t_embed' v_embed' target_poses target_Ks
       spatial_volume_verts B V [] acc = return_ok acc"
| "project_source_views_call R g ext self params x t_embed' v_embed' target_poses target_Ks
       spatial_volume_verts B V (ni # nis) acc =
     then_do (project_source_view_call R g ext self params x t_embed' v_embed' target_poses
                target_Ks spatial_volume_verts B V ni) (\<lambda>r.
       project_source_views_call R g ext self params x t_embed' v_embed' target_poses
         target_Ks spatial_volume_verts B V nis (fst acc @ [fst r], Some (snd r)))"

text \<open>
  \<open>construct_spatial_volume\<close>, lines 36-80. \<open>torch.meshgrid\<close> returns views of its
  argument; \<open>reshape\<close> of the stacked (contiguous) grid is a view; indexing with the
  tuple \<open>(2, 1, 0)\<close>, \<open>repeat\<close> and \<open>torch.stack\<close> compute new tensors. \<open>C\<close> is read
  after the loop and is unbound when the loop never ran.
\<close>

definition construct_spatial_volume_call ::
  "('m, 'v) runtime \<Rightarrow> globals \<Rightarrow> ('m, 'v) helpers \<Rightarrow> SpatialVolumeNet \<Rightarrow> 'm module
     \<Rightarrow> 'm tensor \<Rightarrow> 'm tensor \<Rightarrow> 'm tensor \<Rightarrow> 'm tensor \<Rightarrow> 'm tensor
     \<Rightarrow> ('v, 'm tensor) call" where
  "construct_spatial_volume_call R g ext self params x t_embed v_embed target_poses target_Ks =
     then_do (unpack_shape R 5 x) (\<lambda>s.
     then_do (lift_err (resolve g ''torch'')) (\<lambda>_.
     then_do (run_kernel R (''linspace'', [- spatial_volume_length self,
                spatial_volume_length self, real (spatial_volume_size self)]) []) (\<lambda>verts.
     then_do (run_view R (''meshgrid'', [0]) verts) (\<lambda>g0.
     then_do (run_view R (''meshgrid'', [1]) verts) (\<lambda>g1.
     then_do (run_view R (''meshgrid'', [2]) verts) (\<lambda>g2.
     then_do (run_kernel R (''stack'', [- 1]) [g0, g1, g2]) (\<lambda>verts.
     then_do (run_view R (''reshape'', [1, real (spatial_volume_size self ^ 3), 3]) verts)
       (\<lambda>verts.
     then_do (run_kernel R (''index'', [2, 1, 0]) [verts]) (\<lambda>verts.
     then_do (run_view R (''view'', [1, real (spatial_volume_size self),
                real (spatial_volume_size self), real (spatial_volume_size self), 3]) verts)
       (\<lambda>verts.
     then_do (run_view R (''permute'', [0, 4, 1, 2, 3]) verts) (\<lambda>verts.
     then_do (run_kernel R (''repeat'', [real (s ! 0), 1, 1, 1, 1]) [verts])
       (\<lambda>spatial_volume_verts.
     then_do (run_view R (''view'', [real (s ! 0), 1, real (time_dim self)]) t_embed) (\<lambda>t1.
     then_do (run_kernel R (''repeat'', [1, real (s ! 1), 1]) [t1]) (\<lambda>t2.
     then_do (run_view R (''view'', [real (s ! 0), real (s ! 1), real (time_dim self)]) t2)
       (\<lambda>t_embed'.
     then_do (run_view R (''unsqueeze'', [0]) target_Ks) (\<lambda>k1.
     then_do (run_kernel R (''repeat'', [real (s ! 0), 1, 1, 1]) [k1]) (\<lambda>target_Ks.
     then_do (run_view R (''unsqueeze'', [0]) target_poses) (\<lambda>p1.
     then_do (run_kernel R (''repeat'', [real (s ! 0), 1, 1, 1]) [p1]) (\<lambda>target_poses.
     then_do (project_source_views_call R g ext self params x t_embed' v_embed target_poses
                target_Ks spatial_volume_verts (s ! 0) (spatial_volume_size self)
                [0..<s ! 1] ([], None)) (\<lambda>r.
     then_do (run_kernel R (''stack'', [1]) (fst r)) (\<lambda>stacked.
     then_do (shape_at_call R stacked 1) (\<lambda>N.
     then_do (case snd r of None \<Rightarrow> raise_err (NameError ''C'') | Some C \<Rightarrow> return_ok C)
       (\<lambda>C.
     then_do (run_view R (''view'', [real (s ! 0), real (N * C),
                real (spatial_volume_size self), real (spatial_volume_size self),
                real (spatial_volume_size self)]) stacked) (\<lambda>feats.
     SpatialTime3DNet_call R (sub params ''spatial_volume_feats'') feats t_embed
     ))))))))))))))))))))))))"

text \<open>
  \<open>construct_view_frustum_volume\<close>, lines 82-113. \<open>torch.ones(...) * a - b\<close> computes
  three new tensors; indexing with a tensor computes a new tensor; \<open>view\<close>,
  \<open>permute\<close>, \<open>unsqueeze\<close> and \<open>[:, None]\<close> are views.
\<close>

definition construct_view_frustum_volume_call ::
  "('m, 'v) runtime \<Rightarrow> globals \<Rightarrow> ('m, 'v) helpers \<Rightarrow> SpatialVolumeNet \<Rightarrow> 'm module
     \<Rightarrow> 'm tensor \<Rightarrow> 'm tensor \<Rightarrow> 'm tensor \<Rightarrow> 'm tensor \<Rightarrow> 'm tensor \<Rightarrow> 'm tensor
     \<Rightarrow> ('v, (nat \<times> 'm tensor) list \<times> 'm tensor) call" where
  "construct_view_frustum_volume_call R g ext self params spatial_volume t_embed v_embed
       poses Ks target_indices =
     then_do (unpack_shape R 2 target_indices) (\<lambda>s.
     then_do (lift_err (resolve g ''torch'')) (\<lambda>_.
     then_do (run_kernel R (''ones'', [real (s ! 0 * s ! 1), 1,
                real (frustum_volume_size self), real (frustum_volume_size self)]) []) (\<lambda>o1.
     then_do (run_kernel R (''mul'', [default_origin_depth self]) [o1]) (\<lambda>o1.
     then_do (run_kernel R (''sub'', [frustum_volume_length self]) [o1]) (\<lambda>near.
     then_do (run_kernel R (''ones'', [real (s ! 0 * s ! 1), 1,
                real (frustum_volume_size self), real (frustum_volume_size self)]) []) (\<lambda>o2.
     then_do (run_kernel R (''mul'', [default_origin_depth self]) [o2]) (\<lambda>o2.
     then_do (run_kernel R (''add'', [frustum_volume_length self]) [o2]) (\<lambda>far.
     then_do (run_view R (''view'', [real (s ! 0 * s ! 1)]) target_indices) (\<lambda>target_indices.
     then_do (run_kernel R (''index'', []) [poses, target_indices]) (\<lambda>poses'.
     then_do (run_kernel R (''index'', []) [Ks, target_indices]) (\<lambda>Ks'.
     then_do (lift_err (resolve g ''create_target_volume'')) (\<lambda>_.
     then_do (create_target_volume_call ext (frustum_volume_depth self)
                (frustum_volume_size self) (input_image_size self) poses' Ks' near far)
       (\<lambda>vol.
     then_do (run_kernel R (''div'', [spatial_volume_length self]) [fst vol]) (\<lambda>volume_xyz'.
     then_do (run_view R (''permute'', [0, 2, 3, 4, 1]) volume_xyz') (\<lambda>volume_xyz'.
     then_do (run_view R (''unsqueeze'', [1]) spatial_volume) (\<lambda>s1.
     then_do (run_kernel R (''repeat'', [1, real (s ! 1), 1, 1, 1, 1]) [s1]) (\<lambda>s2.
     then_do (run_view R (''view'', [real (s ! 0 * s ! 1), - 1,
                real (spatial_volume_size self), real (spatial_volume_size self),
                real (spatial_volume_size self)]) s2) (\<lambda>spatial_volume'.
     then_do (lift_err (resolve g ''F'')) (\<lambda>_.
     then_do (run_kernel R (''grid_sample'', []) [spatial_volume', volume_xyz'])
       (\<lambda>volume_feats.
     then_do (run_kernel R (''arange'', [real (s ! 0)]) []) (\<lambda>ar.
     then_do (run_view R (''index_none'', [1]) ar) (\<lambda>ar.
     then_do (run_view R (''view'', [real (s ! 0), real (s ! 1)]) target_indices) (\<lambda>ti.
     then_do (run_kernel R (''index'', []) [v_embed, ar, ti]) (\<lambda>v1.
     then_do (run_view R (''view'', [real (s ! 0 * s ! 1), - 1]) v1) (\<lambda>v_embed'.
     then_do (run_view R (''unsqueeze'', [1]) t_embed) (\<lambda>t1.
     then_do (run_kernel R (''repeat'', [1, real (s ! 1), 1]) [t1]) (\<lambda>t2.
     then_do (run_view R (''view'', [real (s ! 0 * s ! 1), - 1]) t2) (\<lambda>t_embed'.
     then_do (FrustumTV3DNet_call R (sub params ''frustum_volume_feats'') volume_feats
                t_embed' v_embed') (\<lambda>volume_feats_dict.
       return_ok (volume_feats_dict, snd vol))))))))))))))))))))))))))))))"

subsection \<open>What a call leaves unchanged\<close>

text \<open>
  \<open>frames n m Q\<close>: run from any world whose storages below \<open>n\<close> are the ones that
  exist already, the call \<open>m\<close> leaves the contents of every storage below \<open>n\<close> as they
  were, whether it returns or raises, and frees nothing; a value it returns satisfies
  \<open>Q\<close>. \<open>fresh n t\<close>: the tensor \<open>t\<close> lives in a storage allocated at or after \<open>n\<close>.
\<close>

definition fresh :: "addr \<Rightarrow> 'm tensor \<Rightarrow> bool" where
  "fresh n t = (n \<le> storage t)"

definition frames :: "addr \<Rightarrow> ('v, 'a) call \<Rightarrow> ('a \<Rightarrow> bool) \<Rightarrow> bool" where
  "frames n m Q =
     (\<forall>w. n \<le> brk w \<longrightarrow>
        (case m w of (r, w') \<Rightarrow>
           n \<le> brk w' \<and> (\<forall>a<n. heap w' a = heap w a)
           \<and> (case r of Inl _ \<Rightarrow> True | Inr x \<Rightarrow> Q x)))"

text \<open>
  The helpers are geometry on their arguments: called on tensors in new storages, a
  helper writes to no storage that existed before and returns tensors in new storages.
\<close>

definition helpers_allocate :: "('m, 'v) helpers \<Rightarrow> bool" where
  "helpers_allocate ext =
     ((\<forall>n verts w sz K P. fresh n verts \<and> fresh n K \<and> fresh n P \<longrightarrow>
          frames n (get_warp_coordinates_call ext verts w sz K P) (fresh n))
      \<and> (\<forall>n D sz isz P K near far. fresh n P \<and> fresh n K \<and> fresh n near \<and> fresh n far \<longrightarrow>
          frames n (create_target_volume_call ext D sz isz P K near far)
            (\<lambda>vol. fresh n (fst vol) \<and> fresh n (snd vol))))"

subsection \<open>Two calls compared\<close>

text \<open>
  Two calls are made in two worlds. \<open>b1\<close> and \<open>b2\<close> are the first free addresses when
  the calls start, \<open>old\<close> pairs the storages that exist already in the two worlds and
  hold equal contents. Two tensors \<^emph>\<open>correspond\<close> when they have the same metadata and
  live in paired old storages or in storages allocated at the same point of the two
  calls (\<open>allocated_alike\<close>). Two worlds correspond (\<open>sim\<close>) when the calls have allocated
  equally much, storages allocated at the same point hold equal contents, and paired old
  storages hold equal contents.
\<close>

definition allocated_alike :: "addr \<Rightarrow> addr \<Rightarrow> 'm tensor \<Rightarrow> 'm tensor \<Rightarrow> bool" where
  "allocated_alike b1 b2 t1 t2 =
     (meta t1 = meta t2 \<and> b1 \<le> storage t1 \<and> b2 \<le> storage t2
      \<and> storage t1 - b1 = storage t2 - b2)"

definition correspond ::
  "addr \<Rightarrow> addr \<Rightarrow> (addr \<Rightarrow> addr \<Rightarrow> bool) \<Rightarrow> 'm tensor \<Rightarrow> 'm tensor \<Rightarrow> bool" where
  "correspond b1 b2 old t1 t2 =
     (meta t1 = meta t2
      \<and> (old (storage t1) (storage t2)
          \<or> (b1 \<le> storage t1 \<and> b2 \<le> storage t2 \<and> storage t1 - b1 = storage t2 - b2)))"

definition sim ::
  "addr \<Rightarrow> addr \<Rightarrow> (addr \<Rightarrow> addr \<Rightarrow> bool) \<Rightarrow> 'v world \<Rightarrow> 'v world \<Rightarrow> bool" where
  "sim b1 b2 old w1 w2 =
     (b1 \<le> brk w1 \<and> b2 \<le> brk w2 \<and> brk w1 - b1 = brk w2 - b2
      \<and> (\<forall>k. heap w1 (b1 + k) = heap w2 (b2 + k))
      \<and> (\<forall>a1 a2. old a1 a2 \<longrightarrow> a1 < b1 \<and> a2 < b2 \<and> heap w1 a1 = heap w2 a2))"

text \<open>
  Two outcomes are the same when both raise the same error, or both return and the
  values returned are related by \<open>Q\<close>.
\<close>

definition same_outcome :: "('a \<Rightarrow> 'b \<Rightarrow> bool) \<Rightarrow> py_error + 'a \<Rightarrow> py_error + 'b \<Rightarrow> bool" where
  "same_outcome Q r1 r2 =
     (case r1 of
        Inl e1 \<Rightarrow> r2 = Inl e1
      | Inr x1 \<Rightarrow> (case r2 of Inl _ \<Rightarrow> False | Inr x2 \<Rightarrow> Q x1 x2))"

text \<open>
  \<open>alike b1 b2 old m1 m2 Q\<close>: run in corresponding worlds, the calls \<open>m1\<close> and \<open>m2\<close>
  end in corresponding worlds with the same outcome.
\<close>

definition alike ::
  "addr \<Rightarrow> addr \<Rightarrow> (addr \<Rightarrow> addr \<Rightarrow> bool) \<Rightarrow> ('v, 'a) call \<Rightarrow> ('v, 'b) call
     \<Rightarrow> ('a \<Rightarrow> 'b \<Rightarrow> bool) \<Rightarrow> bool" where
  "alike b1 b2 old m1 m2 Q =
     (\<forall>w1 w2. sim b1 b2 old w1 w2 \<longrightarrow>
        sim b1 b2 old (snd (m1 w1)) (snd (m2 w2))
        \<and> same_outcome Q (fst (m1 w1)) (fst (m2 w2)))"

text \<open>
  \<open>get_warp_coordinates\<close> is geometry on its arguments: where a module binds it, two
  calls on corresponding arguments end alike and return corresponding tensors.
\<close>

definition helper_deterministic :: "('m, 'v) helpers \<Rightarrow> bool" where
  "helper_deterministic ext =
     (\<forall>b1 b2 old verts1 verts2 w sz K1 K2 P1 P2.
        correspond b1 b2 old verts1 verts2 \<and> correspond b1 b2 old K1 K2
        \<and> correspond b1 b2 old P1 P2 \<longrightarrow>
        alike b1 b2 old (get_warp_coordinates_call ext verts1 w sz K1 P1)
          (get_warp_coordinates_call ext verts2 w sz K2 P2) (correspond b1 b2 old))"

text \<open>
  A tensor of the first call and one of the second hold equal values: the same metadata
  and, in storages that exist when the calls start, the same contents. In a well-formed
  world nothing is stored past the first free address.
\<close>

definition equal_value :: "'v world \<Rightarrow> 'v world \<Rightarrow> 'm tensor \<Rightarrow> 'm tensor \<Rightarrow> bool" where
  "equal_value w1 w2 t1 t2 =
     (meta t1 = meta t2 \<and> storage t1 < brk w1 \<and> storage t2 < brk w2
      \<and> heap w1 (storage t1) = heap w2 (storage t2))"

definition well_formed :: "'v world \<Rightarrow> bool" where
  "well_formed w = (\<forall>a. brk w \<le> a \<longrightarrow> heap w a = None)"

section \<open>Properties\<close>

subsection \<open>The constructors succeed\<close>

lemmas init_defs =
  SpatialVolumeNet_init_def NoisyTargetViewEncoder_init_def Image2DResBlockWithTV_init_def
  SpatialTime3DNet_init_def SpatialTimeBlock_init_def SpatialUpTimeBlock_init_def
  FrustumTV3DNet_init_def FrustumTVBlock_init_def FrustumTVUpBlock_init_def
  GroupNorm_init_def tuple_get_def bind_err_def

lemma SpatialVolumeNet_init_fields:
  "\<exists>self. SpatialVolumeNet_init tdim vdim vnum image_size fdepth svsize svlength fvlength = Inr self
     \<and> target_encoder self = projr (NoisyTargetViewEncoder_init tdim vdim 16 16)
     \<and> spatial_volume_feats self
         = projr (SpatialTime3DNet_init tdim (16 * vnum) [64, 128, 256, 512])
     \<and> frustum_volume_feats self = projr (FrustumTV3DNet_init 64 tdim vdim [64, 128, 256, 512])
     \<and> frustum_volume_length self = fvlength \<and> input_image_size self = image_size
     \<and> spatial_volume_size self = svsize \<and> spatial_volume_length self = svlength
     \<and> frustum_volume_size self = image_size div 8 \<and> frustum_volume_depth self = fdepth
     \<and> time_dim self = tdim \<and> view_dim self = vdim \<and> default_origin_depth self = 15 / 10"
  by (simp add: init_defs)

subsection \<open>Name lookup and table indexing\<close>

lemma bind_err_Inl [simp]: "bind_err (Inl e) f = Inl e"
  by (simp add: bind_err_def)

lemma bind_err_Inr [simp]: "bind_err (Inr x) f = f x"
  by (simp add: bind_err_def)

lemma resolve_torch:
  "g = View_feature_extractor_globals \<or> g = View_feature_extractor_net_globals
   \<Longrightarrow> resolve g ''torch'' = Inr ()"
  by (auto simp: resolve_def View_feature_extractor_globals_def
        View_feature_extractor_net_globals_def)

lemma resolve_create_target_volume:
  "g = View_feature_extractor_globals \<or> g = View_feature_extractor_net_globals
   \<Longrightarrow> resolve g ''create_target_volume'' = Inl (NameError ''create_target_volume'')"
  by (auto simp: resolve_def View_feature_extractor_globals_def
        View_feature_extractor_net_globals_def)

lemma resolve_get_warp_coordinates:
  "g = View_feature_extractor_globals \<or> g = View_feature_extractor_net_globals
   \<Longrightarrow> resolve g ''get_warp_coordinates'' = Inl (NameError ''get_warp_coordinates'')"
  by (auto simp: resolve_def View_feature_extractor_globals_def
        View_feature_extractor_net_globals_def)

lemma index_rows_in_range:
  "\<forall>i \<in> set idx. - int N \<le> i \<and> i < int N
   \<Longrightarrow> index_rows (N # rest) idx = Inr (length idx # rest)"
  by (simp add: index_rows_def index_in_range_def list_all_iff)

lemma index_rows_out_of_range:
  "\<exists>i \<in> set idx. i < - int N \<or> int N \<le> i \<Longrightarrow> index_rows (N # rest) idx = Inl IndexError"
  by (simp add: index_rows_def index_in_range_def list_all_iff) (metis not_less)

lemma frustum_volume_until_helper:
  assumes "g = View_feature_extractor_globals \<or> g = View_feature_extractor_net_globals"
    and "ishape ti = [B, TN]"
  shows "construct_view_frustum_volume g ext self sv t v poses Ks ti =
           bind_err (index_rows poses (idata ti)) (\<lambda>_.
           bind_err (index_rows Ks (idata ti)) (\<lambda>_.
             Inl (NameError ''create_target_volume'')))"
  using assms(2)
  by (simp add: construct_view_frustum_volume_def Let_def resolve_torch [OF assms(1)]
        resolve_create_target_volume [OF assms(1)])

subsection \<open>Neither construction returns while the helpers are unbound\<close>

lemma raises_Inl [simp]: "raises (Inl e)"
  by (simp add: raises_def)

lemma raises_Inr [simp]: "\<not> raises (Inr x)"
  by (simp add: raises_def)

lemma raises_bind: "(\<And>x. m = Inr x \<Longrightarrow> raises (f x)) \<Longrightarrow> raises (bind_err m f)"
  by (cases m) simp_all

lemma project_source_view_raises:
  assumes "g = View_feature_extractor_globals \<or> g = View_feature_extractor_net_globals"
  shows "raises (project_source_view g ext self x t v poses Ks verts B V ni)"
  unfolding project_source_view_def
  by (intro raises_bind) (simp add: resolve_get_warp_coordinates [OF assms])

lemma project_source_views_returns:
  assumes "g = View_feature_extractor_globals \<or> g = View_feature_extractor_net_globals"
    and "project_source_views g ext self x t v poses Ks verts B V nis acc = Inr r"
  shows "nis = [] \<and> r = acc"
proof (cases nis)
  case Nil
  with assms(2) show ?thesis by simp
next
  case (Cons ni rest)
  obtain feats C where acc: "acc = (feats, C)" by (cases acc)
  from project_source_view_raises [OF assms(1), of ext self x t v poses Ks verts B V ni]
  obtain e where "project_source_view g ext self x t v poses Ks verts B V ni = Inl e"
    by (cases "project_source_view g ext self x t v poses Ks verts B V ni") simp_all
  with assms(2) show ?thesis by (simp add: Cons acc)
qed

lemma construct_spatial_volume_raises:
  assumes "g = View_feature_extractor_globals \<or> g = View_feature_extractor_net_globals"
  shows "raises (construct_spatial_volume g ext self x t v poses Ks)"
proof -
  have loop: "raises (bind_err (project_source_views g ext self x' t' v' p' k' verts B V nis ([], None))
                (\<lambda>(feats_list, C). bind_err (stack_dim1 feats_list) (h C)))"
    for x' t' v' p' k' verts B V nis and h :: "nat option \<Rightarrow> shape \<Rightarrow> py_error + shape"
  proof (rule raises_bind)
    fix r
    assume "project_source_views g ext self x' t' v' p' k' verts B V nis ([], None) = Inr r"
    from project_source_views_returns [OF assms this] have "r = ([], None)" by simp
    then show "raises (case r of (feats_list, C) \<Rightarrow> bind_err (stack_dim1 feats_list) (h C))"
      by (simp add: stack_dim1_def)
  qed
  show ?thesis
    unfolding construct_spatial_volume_def Let_def
    by (auto split: list.splits intro!: raises_bind loop)
qed

lemma construct_view_frustum_volume_raises:
  assumes "g = View_feature_extractor_globals \<or> g = View_feature_extractor_net_globals"
  shows "raises (construct_view_frustum_volume g ext self sv t v poses Ks ti)"
proof (cases "\<exists>B TN. ishape ti = [B, TN]")
  case True
  then obtain B TN where "ishape ti = [B, TN]" by blast
  from frustum_volume_until_helper [OF assms this] show ?thesis
    by (auto intro!: raises_bind)
next
  case False
  then show ?thesis
    by (auto simp: construct_view_frustum_volume_def split: list.splits)
qed

subsection \<open>The encoder on inputs of the documented shapes\<close>

lemma conv2d_1x1:
  "Conv2d_forward (Conv3d_init cin cout 1 1 0) [b, cin, 1, 1] = Inr [b, cout, 1, 1]"
  by (simp add: Conv2d_forward_def Conv3d_init_def conv_fits_def conv_size_def)

lemma conv2d_same:
  "0 < h \<Longrightarrow> 0 < w \<Longrightarrow>
   Conv2d_forward (Conv3d_init cin cout 3 1 1) [b, cin, h, w] = Inr [b, cout, h, w]"
  by (simp add: Conv2d_forward_def Conv3d_init_def conv_fits_def conv_size_def)

lemma add_embed2: "tensor_add [b, c, h, w] [b, c, 1, 1] = Inr [b, c, h, w]"
  by (simp add: tensor_add_def)

lemma add_same2: "tensor_add [b, c, h, w] [b, c, h, w] = Inr [b, c, h, w]"
  by (simp add: tensor_add_def)

lemma group_norm16:
  "GroupNorm_forward \<lparr> num_groups = 8, num_channels = 16 \<rparr> [b, 16, h, w] = Inr [b, 16, h, w]"
proof -
  have "b * 16 div 8 = b * 2" by simp
  moreover have "b * 2 * (h * w) \<noteq> 1" by simp
  ultimately show ?thesis by (simp add: GroupNorm_forward_def)
qed

lemma Image2DResBlockWithTV_keeps:
  assumes "0 < h" and "0 < w"
  shows "\<exists>blk. Image2DResBlockWithTV_init 16 tdim vdim = Inr blk
           \<and> Image2DResBlockWithTV_forward blk [b, 16, h, w] [b, tdim, 1, 1] [b, vdim, 1, 1]
               = Inr [b, 16, h, w]"
  using assms
  by (simp add: Image2DResBlockWithTV_init_def Image2DResBlockWithTV_forward_def
        GroupNorm_init_def conv2d_1x1 add_embed2 add_same2 group_norm16 SiLU_forward_def
        conv2d_same del: One_nat_def)

lemma NoisyTargetViewEncoder_shape:
  assumes "0 < h" and "0 < w"
  shows "\<exists>enc. NoisyTargetViewEncoder_init tdim vdim 16 16 = Inr enc
           \<and> NoisyTargetViewEncoder_forward enc [b, 4, h, w] [b, tdim] [b, vdim]
               = Inr [b, 16, h, w]"
proof -
  from Image2DResBlockWithTV_keeps [OF assms, of tdim vdim b]
  obtain blk where i: "Image2DResBlockWithTV_init 16 tdim vdim = Inr blk"
    and f: "Image2DResBlockWithTV_forward blk [b, 16, h, w] [b, tdim, 1, 1] [b, vdim, 1, 1]
              = Inr [b, 16, h, w]"
    by blast
  show ?thesis
    using assms
    by (simp add: NoisyTargetViewEncoder_init_def NoisyTargetViewEncoder_forward_def i f
          GroupNorm_init_def group_norm16 conv2d_same SiLU_forward_def del: One_nat_def)
qed

lemma construct_spatial_volume_documented:
  assumes g: "g = View_feature_extractor_globals \<or> g = View_feature_extractor_net_globals"
    and self: "SpatialVolumeNet_init tdim vdim vnum image_size fdepth svsize svlength fvlength
                 = Inr self"
    and pos: "0 < N" "0 < H" "0 < W"
  shows "construct_spatial_volume g ext self [B, N, 4, H, W] [B, tdim] [B, N, vdim]
           [N, 3, 4] [N, 3, 3] = Inl (NameError ''get_warp_coordinates'')"
proof -
  from SpatialVolumeNet_init_fields [of tdim vdim vnum image_size fdepth svsize svlength fvlength]
    self
  have enc: "target_encoder self = projr (NoisyTargetViewEncoder_init tdim vdim 16 16)"
    and td: "time_dim self = tdim" and sv: "spatial_volume_size self = svsize"
    by auto
  from NoisyTargetViewEncoder_shape [OF pos(2,3), of tdim vdim B]
  have fw: "NoisyTargetViewEncoder_forward (target_encoder self) [B, 4, H, W] [B, tdim] [B, vdim]
              = Inr [B, 16, H, W]"
    unfolding enc by auto
  have first: "project_source_view g ext self [B, N, 4, H, W] [B, N, tdim] [B, N, vdim]
                 [B, N, 3, 4] [B, N, 3, 3] verts B V 0 = Inl (NameError ''get_warp_coordinates'')"
    for verts V
    using pos(1)
    by (simp add: project_source_view_def select_dim1_def fw shape_at_def
          resolve_get_warp_coordinates [OF g])
  have views: "[0..<N] = 0 # [Suc 0..<N]"
    using pos(1) by (simp add: upt_conv_Cons)
  show ?thesis
    unfolding construct_spatial_volume_def
    by (simp add: Let_def resolve_torch [OF g] view_shape_def numel_def power3_eq_cube
          permute_def repeat_def unsqueeze_def td sv views first)
qed

subsection \<open>The feature pyramid of FrustumTV3DNet\<close>

lemma conv1x1_embed:
  "Conv3d_forward (Conv3d_init cin cout 1 1 0) [b, cin, 1, 1, 1] = Inr [b, cout, 1, 1, 1]"
  by (simp add: Conv3d_forward_def Conv3d_init_def conv_fits_def conv_size_def)

lemma conv3_same:
  "Conv3d_forward (Conv3d_init cin cout 3 1 1) [b, cin, d, h, w] =
     (if 0 < d \<and> 0 < h \<and> 0 < w then Inr [b, cout, d, h, w] else Inl RuntimeError)"
  by (auto simp: Conv3d_forward_def Conv3d_init_def conv_fits_def conv_size_def)

lemma half_size: "0 < d \<Longrightarrow> Suc ((2 * d - Suc 0) div 2) = d"
  by (cases d) simp_all

lemma conv3_half:
  "0 < d \<Longrightarrow> 0 < h \<Longrightarrow> 0 < w \<Longrightarrow>
   Conv3d_forward (Conv3d_init cin cout 3 2 1) [b, cin, 2 * d, 2 * h, 2 * w] =
     Inr [b, cout, d, h, w]"
  by (simp add: Conv3d_forward_def Conv3d_init_def conv_fits_def conv_size_def half_size)

lemma tconv_double:
  "0 < d \<Longrightarrow> 0 < h \<Longrightarrow> 0 < w \<Longrightarrow>
   ConvTranspose3d_forward (ConvTranspose3d_init cin cout 3 1 1 2) [b, cin, d, h, w] =
     Inr [b, cout, 2 * d, 2 * h, 2 * w]"
  by (simp add: ConvTranspose3d_forward_def ConvTranspose3d_init_def tconv_size_def
        nat_eq_iff algebra_simps)

lemma add_embed:
  "tensor_add [b, c, d, h, w] [b, c, 1, 1, 1] = Inr [b, c, d, h, w]"
  by (simp add: tensor_add_def bind_err_def)

lemma add_same:
  "tensor_add [b, c, d, h, w] [b, c, d, h, w] = Inr [b, c, d, h, w]"
  by (simp add: tensor_add_def bind_err_def)

lemma group_norm_keeps:
  "8 dvd c \<Longrightarrow> 16 \<le> c \<Longrightarrow>
   GroupNorm_forward \<lparr> num_groups = 8, num_channels = c \<rparr> [b, c, d, h, w] = Inr [b, c, d, h, w]"
proof -
  assume "8 dvd c" and "16 \<le> c"
  then obtain k where k: "c = 8 * k" and "2 \<le> k" by (auto elim: dvdE)
  have "b * c div 8 = b * k" by (simp add: k)
  moreover have "b * k * (d * h * w) \<noteq> 1" using \<open>2 \<le> k\<close> by auto
  ultimately show ?thesis
    by (simp add: GroupNorm_forward_def)
qed


lemma GroupNorm_init_ok: "8 dvd c \<Longrightarrow> GroupNorm_init 8 c = Inr \<lparr> num_groups = 8, num_channels = c \<rparr>"
  by (simp add: GroupNorm_init_def mod_eq_0_iff_dvd)

lemma FrustumTVBlock_same:
  assumes "8 dvd x_dim" and "16 \<le> x_dim" and "0 < d" and "0 < h" and "0 < w"
  shows "\<exists>blk. FrustumTVBlock_init x_dim t_dim v_dim out_dim 1 = Inr blk
           \<and> FrustumTVBlock_forward blk [b, x_dim, d, h, w] [b, t_dim, 1, 1, 1] [b, v_dim, 1, 1, 1]
               = Inr [b, out_dim, d, h, w]"
  using assms
  by (simp add: FrustumTVBlock_init_def FrustumTVBlock_forward_def GroupNorm_init_ok bind_err_def
        conv1x1_embed add_embed group_norm_keeps SiLU_forward_def conv3_same del: One_nat_def)

lemma FrustumTVBlock_half:
  assumes "8 dvd x_dim" and "16 \<le> x_dim" and "0 < d" and "0 < h" and "0 < w"
  shows "\<exists>blk. FrustumTVBlock_init x_dim t_dim v_dim out_dim 2 = Inr blk
           \<and> FrustumTVBlock_forward blk [b, x_dim, 2 * d, 2 * h, 2 * w] [b, t_dim, 1, 1, 1]
                 [b, v_dim, 1, 1, 1]
               = Inr [b, out_dim, d, h, w]"
  using assms
  by (simp add: FrustumTVBlock_init_def FrustumTVBlock_forward_def GroupNorm_init_ok bind_err_def
        conv1x1_embed add_embed group_norm_keeps SiLU_forward_def conv3_half del: One_nat_def)

lemma FrustumTVUpBlock_double:
  assumes "8 dvd x_dim" and "16 \<le> x_dim" and "0 < d" and "0 < h" and "0 < w"
  shows "\<exists>blk. FrustumTVUpBlock_init x_dim t_dim v_dim out_dim = Inr blk
           \<and> FrustumTVUpBlock_forward blk [b, x_dim, d, h, w] [b, t_dim, 1, 1, 1] [b, v_dim, 1, 1, 1]
               = Inr [b, out_dim, 2 * d, 2 * h, 2 * w]"
  using assms
  by (simp add: FrustumTVUpBlock_init_def FrustumTVUpBlock_forward_def GroupNorm_init_ok
        bind_err_def conv1x1_embed add_embed group_norm_keeps SiLU_forward_def tconv_double del: One_nat_def)


lemma FrustumTV3DNet_levels:
  assumes c0: "8 dvd d0" "16 \<le> d0" and c1: "8 dvd d1" "16 \<le> d1"
    and c2: "8 dvd d2" "16 \<le> d2" and c3: "8 dvd d3" "16 \<le> d3"
    and pos: "0 < D" "0 < H" "0 < W"
  shows "\<exists>net. FrustumTV3DNet_init in_dim t_dim v_dim [d0, d1, d2, d3] = Inr net
           \<and> FrustumTV3DNet_forward net [b, in_dim, 8 * D, 8 * H, 8 * W] [b, t_dim] [b, v_dim]
               = Inr [(8 * W, [b, d0, 8 * D, 8 * H, 8 * W]),
                      (8 * W div 2, [b, d1, 4 * D, 4 * H, 4 * W]),
                      (8 * W div 4, [b, d2, 2 * D, 2 * H, 2 * W]),
                      (8 * W div 8, [b, d3, D, H, W])]"
proof -
  let ?t = "[b, t_dim, 1, 1, 1]" and ?v = "[b, v_dim, 1, 1, 1]"
  have p4: "0 < 4 * D" "0 < 4 * H" "0 < 4 * W" and p2: "0 < 2 * D" "0 < 2 * H" "0 < 2 * W"
    and p8: "0 < 8 * D" "0 < 8 * H" "0 < 8 * W"
    using pos by simp_all
  obtain k1 where i1: "FrustumTVBlock_init d0 t_dim v_dim d1 2 = Inr k1"
    and f1: "FrustumTVBlock_forward k1 [b, d0, 2 * (4 * D), 2 * (4 * H), 2 * (4 * W)] ?t ?v
               = Inr [b, d1, 4 * D, 4 * H, 4 * W]"
    using FrustumTVBlock_half [OF c0 p4] by blast
  obtain k2 where i2: "FrustumTVBlock_init d1 t_dim v_dim d1 1 = Inr k2"
    and f2: "FrustumTVBlock_forward k2 [b, d1, 4 * D, 4 * H, 4 * W] ?t ?v
               = Inr [b, d1, 4 * D, 4 * H, 4 * W]"
    using FrustumTVBlock_same [OF c1 p4] by blast
  obtain k3 where i3: "FrustumTVBlock_init d1 t_dim v_dim d2 2 = Inr k3"
    and f3: "FrustumTVBlock_forward k3 [b, d1, 2 * (2 * D), 2 * (2 * H), 2 * (2 * W)] ?t ?v
               = Inr [b, d2, 2 * D, 2 * H, 2 * W]"
    using FrustumTVBlock_half [OF c1 p2] by blast
  obtain k4 where i4: "FrustumTVBlock_init d2 t_dim v_dim d2 1 = Inr k4"
    and f4: "FrustumTVBlock_forward k4 [b, d2, 2 * D, 2 * H, 2 * W] ?t ?v
               = Inr [b, d2, 2 * D, 2 * H, 2 * W]"
    using FrustumTVBlock_same [OF c2 p2] by blast
  obtain k5 where i5: "FrustumTVBlock_init d2 t_dim v_dim d3 2 = Inr k5"
    and f5: "FrustumTVBlock_forward k5 [b, d2, 2 * D, 2 * H, 2 * W] ?t ?v = Inr [b, d3, D, H, W]"
    using FrustumTVBlock_half [OF c2 pos] by blast
  obtain k6 where i6: "FrustumTVBlock_init d3 t_dim v_dim d3 1 = Inr k6"
    and f6: "FrustumTVBlock_forward k6 [b, d3, D, H, W] ?t ?v = Inr [b, d3, D, H, W]"
    using FrustumTVBlock_same [OF c3 pos] by blast
  obtain q0 where j0: "FrustumTVUpBlock_init d3 t_dim v_dim d2 = Inr q0"
    and g0: "FrustumTVUpBlock_forward q0 [b, d3, D, H, W] ?t ?v = Inr [b, d2, 2 * D, 2 * H, 2 * W]"
    using FrustumTVUpBlock_double [OF c3 pos] by blast
  obtain q1 where j1: "FrustumTVUpBlock_init d2 t_dim v_dim d1 = Inr q1"
    and g1: "FrustumTVUpBlock_forward q1 [b, d2, 2 * D, 2 * H, 2 * W] ?t ?v
               = Inr [b, d1, 2 * (2 * D), 2 * (2 * H), 2 * (2 * W)]"
    using FrustumTVUpBlock_double [OF c2 p2] by blast
  obtain q2 where j2: "FrustumTVUpBlock_init d1 t_dim v_dim d0 = Inr q2"
    and g2: "FrustumTVUpBlock_forward q2 [b, d1, 4 * D, 4 * H, 4 * W] ?t ?v
               = Inr [b, d0, 2 * (4 * D), 2 * (4 * H), 2 * (4 * W)]"
    using FrustumTVUpBlock_double [OF c1 p4] by blast
  have e8: "2 * (4 * D) = 8 * D" "2 * (4 * H) = 8 * H" "2 * (4 * W) = 8 * W"
    and e4: "2 * (2 * D) = 4 * D" "2 * (2 * H) = 4 * H" "2 * (2 * W) = 4 * W"
    by simp_all
  note fs = f1 [unfolded e8] f2 f3 [unfolded e4] f4 f5 f6 g0 g1 [unfolded e4] g2 [unfolded e8]
  let ?net = "\<lparr> conv0 = Conv3d_init in_dim d0 3 1 1,
             conv1 = k1, conv2 = k2, conv3 = k3, conv4 = k4, conv5 = k5, conv6 = k6,
             up0 = q0, up1 = q1, up2 = q2 \<rparr>"
  have init: "FrustumTV3DNet_init in_dim t_dim v_dim [d0, d1, d2, d3] = Inr ?net"
    by (simp add: FrustumTV3DNet_init_def tuple_get_def bind_err_def i1 i2 i3 i4 i5 i6 j0 j1 j2
          del: One_nat_def)
  have x0: "Conv3d_forward (Conv3d_init in_dim d0 3 1 1) [b, in_dim, 8 * D, 8 * H, 8 * W]
              = Inr [b, d0, 8 * D, 8 * H, 8 * W]"
    using pos by (simp add: conv3_same del: One_nat_def)
  have keys: "8 * W \<noteq> 8 * W div 2" "8 * W \<noteq> 8 * W div 4" "8 * W \<noteq> 8 * W div 8"
    "8 * W div 2 \<noteq> 8 * W div 4" "8 * W div 2 \<noteq> 8 * W div 8" "8 * W div 4 \<noteq> 8 * W div 8"
    using pos by simp_all
  have "FrustumTV3DNet_forward ?net [b, in_dim, 8 * D, 8 * H, 8 * W] [b, t_dim] [b, v_dim]
          = Inr [(8 * W, [b, d0, 8 * D, 8 * H, 8 * W]),
                 (8 * W div 2, [b, d1, 4 * D, 4 * H, 4 * W]),
                 (8 * W div 4, [b, d2, 2 * D, 2 * H, 2 * W]),
                 (8 * W div 8, [b, d3, D, H, W])]"
    unfolding FrustumTV3DNet_forward_def
    by (simp add: x0 fs add_same bind_err_def keys pos del: One_nat_def)
  with init show ?thesis by blast
qed

text \<open>
  Claim C1, as amended. For a network built with channel counts \<open>dims = (d0, d1, d2, d3)\<close>,
  each a multiple of 8 and at least 16, and an input volume \<open>(B, in_dim, D, H, W)\<close> whose
  depth, height and width are all positive multiples of 8, with embeddings of batch size
  \<open>B\<close>, \<open>FrustumTV3DNet.forward\<close> returns a dict of exactly 4 entries keyed by
  \<open>W, W//2, W//4, W//8\<close>; the level keyed \<open>W // 2^i\<close> has \<open>dims[i]\<close> channels and
  spatial size \<open>(D, H, W) // 2^i\<close>, for every batch size \<open>B\<close>.
\<close>

theorem frustum_pyramid_levels:
  assumes "8 dvd d0 \<and> 16 \<le> d0" and "8 dvd d1 \<and> 16 \<le> d1"
    and "8 dvd d2 \<and> 16 \<le> d2" and "8 dvd d3 \<and> 16 \<le> d3"
    and "8 dvd D \<and> 0 < D" and "8 dvd H \<and> 0 < H" and "8 dvd W \<and> 0 < W"
  shows "\<exists>net pyramid.
           FrustumTV3DNet_init in_dim t_dim v_dim [d0, d1, d2, d3] = Inr net
         \<and> FrustumTV3DNet_forward net [b, in_dim, D, H, W] [b, t_dim] [b, v_dim] = Inr pyramid
         \<and> length pyramid = 4
         \<and> map fst pyramid = [W, W div 2, W div 4, W div 8]
         \<and> distinct (map fst pyramid)
         \<and> map snd pyramid = [[b, d0, D, H, W],
                                [b, d1, D div 2, H div 2, W div 2],
                                [b, d2, D div 4, H div 4, W div 4],
                                [b, d3, D div 8, H div 8, W div 8]]"
proof -
  from assms(5-7) obtain D' H' W' where eq: "D = 8 * D'" "H = 8 * H'" "W = 8 * W'"
    and pos: "0 < D'" "0 < H'" "0 < W'"
    by (auto elim!: dvdE)
  from FrustumTV3DNet_levels [of d0 d1 d2 d3 D' H' W' in_dim t_dim v_dim b] assms(1-4) pos
  obtain net where "FrustumTV3DNet_init in_dim t_dim v_dim [d0, d1, d2, d3] = Inr net"
    and "FrustumTV3DNet_forward net [b, in_dim, D, H, W] [b, t_dim] [b, v_dim]
           = Inr [(8 * W', [b, d0, 8 * D', 8 * H', 8 * W']),
                  (8 * W' div 2, [b, d1, 4 * D', 4 * H', 4 * W']),
                  (8 * W' div 4, [b, d2, 2 * D', 2 * H', 2 * W']),
                  (8 * W' div 8, [b, d3, D', H', W'])]"
    unfolding eq by blast
  then show ?thesis
    unfolding eq using pos
    by (intro exI [of _ net]
          exI [of _ "[(8 * W', [b, d0, 8 * D', 8 * H', 8 * W']),
                  (8 * W' div 2, [b, d1, 4 * D', 4 * H', 4 * W']),
                  (8 * W' div 4, [b, d2, 2 * D', 2 * H', 2 * W']),
                  (8 * W' div 8, [b, d3, D', H', W'])]"]) simp
qed

theorem frustum_pyramid_levels_witness:
  "\<exists>net. FrustumTV3DNet_init 64 256 4 [64, 128, 256, 512] = Inr net
       \<and> FrustumTV3DNet_forward net [2, 64, 48, 32, 32] [2, 256] [2, 4]
           = Inr [(32, [2, 64, 48, 32, 32]), (16, [2, 128, 24, 16, 16]),
                  (8, [2, 256, 12, 8, 8]), (4, [2, 512, 6, 4, 4])]"
proof -
  have "8 dvd (64::nat) \<and> 16 \<le> (64::nat)" and "8 dvd (128::nat) \<and> 16 \<le> (128::nat)"
    and "8 dvd (256::nat) \<and> 16 \<le> (256::nat)" and "8 dvd (512::nat) \<and> 16 \<le> (512::nat)"
    and "8 dvd (48::nat) \<and> 0 < (48::nat)" and "8 dvd (32::nat) \<and> 0 < (32::nat)"
    and "8 dvd (32::nat) \<and> 0 < (32::nat)"
    by simp_all
  from frustum_pyramid_levels [OF this, of 64 256 4 2]
  obtain net pyramid where n: "FrustumTV3DNet_init 64 256 4 [64, 128, 256, 512] = Inr net"
    and f: "FrustumTV3DNet_forward net [2, 64, 48, 32, 32] [2, 256] [2, 4] = Inr pyramid"
    and k: "map fst pyramid = [32, 32 div 2, 32 div 4, 32 div 8]"
    and v: "map snd pyramid = [[2, 64, 48, 32, 32], [2, 128, 48 div 2, 32 div 2, 32 div 2],
              [2, 256, 48 div 4, 32 div 4, 32 div 4], [2, 512, 48 div 8, 32 div 8, 32 div 8]]"
    by (elim exE conjE)
  have "pyramid = zip (map fst pyramid) (map snd pyramid)" by (simp add: zip_map_fst_snd)
  then have "pyramid = [(32, [2, 64, 48, 32, 32]), (16, [2, 128, 24, 16, 16]),
                  (8, [2, 256, 12, 8, 8]), (4, [2, 512, 6, 4, 4])]"
    unfolding k v by simp
  with n f show ?thesis by blast
qed

lemmas shape_defs =
  frustum_volume_feats_run_def FrustumTV3DNet_init_def FrustumTV3DNet_forward_def
  FrustumTVBlock_init_def FrustumTVBlock_forward_def FrustumTVUpBlock_init_def
  FrustumTVUpBlock_forward_def GroupNorm_init_def GroupNorm_forward_def Conv3d_init_def
  Conv3d_forward_def ConvTranspose3d_init_def ConvTranspose3d_forward_def conv_size_def
  conv_fits_def tconv_size_def tensor_add_def SiLU_forward_def tuple_get_def bind_err_def

text \<open>
  The claim as first stated fails on the network \<open>SpatialVolumeNet\<close> configures: on a
  volume \<open>(1, 64, 48, 32, 32)\<close> the four levels have 64, 128, 256 and 512 channels, not
  one common count; and a width that is a multiple of 8 is not enough, since on
  \<open>(1, 64, 3, 32, 32)\<close> the skip connection \<open>self.up1(x2, t, v) + x1\<close> adds depths 4
  and 2 and the runtime raises.
\<close>

theorem frustum_pyramid_counterexample:
  "frustum_volume_feats_run 256 4 [1, 64, 48, 32, 32] [1, 256] [1, 4]
     = Inr [(32, [1, 64, 48, 32, 32]), (16, [1, 128, 24, 16, 16]),
            (8, [1, 256, 12, 8, 8]), (4, [1, 512, 6, 4, 4])]
   \<and> frustum_volume_feats_run 256 4 [1, 64, 3, 32, 32] [1, 256] [1, 4] = Inl RuntimeError"
  by (simp add: shape_defs)

subsection \<open>The unbound geometry helpers\<close>

text \<open>
  Claim C2, as amended. In either module, \<open>construct_spatial_volume\<close> and
  \<open>construct_view_frustum_volume\<close> never return normally, for every input: the helpers
  \<open>get_warp_coordinates\<close> and \<open>create_target_volume\<close> are bound by no module. On
  inputs of the documented shapes (at least one source view and a non-empty image for
  the first; indices within \<open>[-N, N)\<close> for the second) the error raised is the
  NameError of the helper.
\<close>

theorem helpers_unbound:
  assumes "g = View_feature_extractor_globals \<or> g = View_feature_extractor_net_globals"
  shows "raises (construct_spatial_volume g ext self x t_embed v_embed target_poses target_Ks)
       \<and> raises (construct_view_frustum_volume g ext self spatial_volume t_embed v_embed poses Ks
                   target_indices)
       \<and> (SpatialVolumeNet_init tdim vdim vnum image_size fdepth svsize svlength fvlength
             = Inr net \<and> 0 < N \<and> 0 < H \<and> 0 < W \<longrightarrow>
            construct_spatial_volume g ext net [B, N, 4, H, W] [B, tdim] [B, N, vdim]
              [N, 3, 4] [N, 3, 3] = Inl (NameError ''get_warp_coordinates''))
       \<and> (ishape target_indices = [B, TN]
            \<and> (\<forall>i \<in> set (idata target_indices). - int N \<le> i \<and> i < int N) \<longrightarrow>
            construct_view_frustum_volume g ext self spatial_volume t_embed v_embed
              (N # prest) (N # krest) target_indices = Inl (NameError ''create_target_volume''))"
proof (intro conjI impI)
  show "raises (construct_spatial_volume g ext self x t_embed v_embed target_poses target_Ks)"
    by (rule construct_spatial_volume_raises [OF assms])
  show "raises (construct_view_frustum_volume g ext self spatial_volume t_embed v_embed poses Ks
                  target_indices)"
    by (rule construct_view_frustum_volume_raises [OF assms])
next
  assume "SpatialVolumeNet_init tdim vdim vnum image_size fdepth svsize svlength fvlength
            = Inr net \<and> 0 < N \<and> 0 < H \<and> 0 < W"
  then show "construct_spatial_volume g ext net [B, N, 4, H, W] [B, tdim] [B, N, vdim]
               [N, 3, 4] [N, 3, 3] = Inl (NameError ''get_warp_coordinates'')"
    using construct_spatial_volume_documented [OF assms] by blast
next
  assume a: "ishape target_indices = [B, TN]
               \<and> (\<forall>i \<in> set (idata target_indices). - int N \<le> i \<and> i < int N)"
  then have s: "ishape target_indices = [B, TN]" by simp
  from a show "construct_view_frustum_volume g ext self spatial_volume t_embed v_embed
                 (N # prest) (N # krest) target_indices = Inl (NameError ''create_target_volume'')"
    by (simp add: frustum_volume_until_helper [OF assms s] index_rows_in_range)
qed

theorem helpers_unbound_witness:
  "\<exists>self. SpatialVolumeNet_default 256 4 16 = Inr self
     \<and> construct_spatial_volume View_feature_extractor_net_globals
          \<lparr> get_warp_coordinates_impl = (\<lambda>_ _ _ _ _. Inr [2, 32768, 2]),
            create_target_volume_impl =
              (\<lambda>_ _ _ _ _ _ _. Inr ([2, 3, 48, 32, 32], [2, 1, 48, 32, 32])) \<rparr>
          self [2, 16, 4, 32, 32] [2, 256] [2, 16, 4] [16, 3, 4] [16, 3, 3]
        = Inl (NameError ''get_warp_coordinates'')
     \<and> construct_view_frustum_volume View_feature_extractor_net_globals
          \<lparr> get_warp_coordinates_impl = (\<lambda>_ _ _ _ _. Inr [2, 32768, 2]),
            create_target_volume_impl =
              (\<lambda>_ _ _ _ _ _ _. Inr ([2, 3, 48, 32, 32], [2, 1, 48, 32, 32])) \<rparr>
          self [2, 64, 32, 32, 32] [2, 256] [2, 16, 4] [16, 3, 4] [16, 3, 3]
          \<lparr> ishape = [2, 1], idata = [3, - 1] \<rparr>
        = Inl (NameError ''create_target_volume'')"
proof -
  from SpatialVolumeNet_init_fields [of 256 4 16 256 48 32 "5 / 10" "86603 / 100000"]
  obtain self where s: "SpatialVolumeNet_default 256 4 16 = Inr self"
    unfolding SpatialVolumeNet_default_def by blast
  let ?g = View_feature_extractor_net_globals
  have g: "?g = View_feature_extractor_globals \<or> ?g = View_feature_extractor_net_globals"
    by simp
  from helpers_unbound [OF g, where net = self and self = self and tdim = 256 and vdim = 4
      and vnum = 16 and image_size = 256 and fdepth = 48 and svsize = 32 and svlength = "5 / 10"
      and fvlength = "86603 / 100000" and N = 16 and H = 32 and W = 32 and B = 2 and TN = 1
      and target_indices = "\<lparr> ishape = [2, 1], idata = [3, - 1] \<rparr>"
      and prest = "[3, 4]" and krest = "[3, 3]"]
    s
  show ?thesis
    by (intro exI [of _ self]) (simp add: SpatialVolumeNet_default_def)
qed

text \<open>
  The error is not always the NameError: the lines before the helper's call run first.
  An index 16 into 16 poses raises IndexError at line 101, and a timestep embedding of
  the wrong size raises at the \<open>view\<close> of line 55.
\<close>

theorem helpers_unbound_counterexample:
  "bind_err (SpatialVolumeNet_default 256 4 16) (\<lambda>self.
     construct_view_frustum_volume View_feature_extractor_globals
       \<lparr> get_warp_coordinates_impl = (\<lambda>_ _ _ _ _. Inr [2, 32768, 2]),
         create_target_volume_impl =
           (\<lambda>_ _ _ _ _ _ _. Inr ([2, 3, 48, 32, 32], [2, 1, 48, 32, 32])) \<rparr>
       self [2, 64, 32, 32, 32] [2, 256] [2, 16, 4] [16, 3, 4] [16, 3, 3]
       \<lparr> ishape = [2, 1], idata = [3, 16] \<rparr>) = Inl IndexError
   \<and> bind_err (SpatialVolumeNet_default 256 4 16) (\<lambda>self.
     construct_spatial_volume View_feature_extractor_globals
       \<lparr> get_warp_coordinates_impl = (\<lambda>_ _ _ _ _. Inr [2, 32768, 2]),
         create_target_volume_impl =
           (\<lambda>_ _ _ _ _ _ _. Inr ([2, 3, 48, 32, 32], [2, 1, 48, 32, 32])) \<rparr>
       self [2, 16, 4, 32, 32] [2, 128] [2, 16, 4] [16, 3, 4] [16, 3, 3]) = Inl RuntimeError"
proof -
  from SpatialVolumeNet_init_fields [of 256 4 16 256 48 32 "5 / 10" "86603 / 100000"]
  obtain self where s: "SpatialVolumeNet_default 256 4 16 = Inr self"
    and td: "time_dim self = 256"
    unfolding SpatialVolumeNet_default_def by blast
  have g: "View_feature_extractor_globals = View_feature_extractor_globals
             \<or> View_feature_extractor_globals = View_feature_extractor_net_globals"
    by simp
  have i: "ishape \<lparr> ishape = [2, 1], idata = [3, 16] \<rparr> = [2, 1]" by simp
  have a: "construct_view_frustum_volume View_feature_extractor_globals ext self sv t v
             [16, 3, 4] [16, 3, 3] \<lparr> ishape = [2, 1], idata = [3, 16] \<rparr> = Inl IndexError"
    for ext sv t v
    unfolding frustum_volume_until_helper [OF g i]
    by (simp add: index_rows_def index_in_range_def)
  have b: "construct_spatial_volume View_feature_extractor_globals ext self
             [2, 16, 4, 32, 32] [2, 128] [2, 16, 4] [16, 3, 4] [16, 3, 3] = Inl RuntimeError"
    for ext
    by (simp add: construct_spatial_volume_def Let_def resolve_torch [OF g] view_shape_def
          numel_def permute_def repeat_def td)
  show ?thesis
    unfolding s bind_err_Inr a b by simp
qed

subsection \<open>Repeated target indices\<close>

text \<open>
  Claim C3 asks that, for a batch of one, the target indices \<open>[[0]]\<close> and \<open>[[0, 0]]\<close>
  give the same feature volume per target. On the code neither call produces a volume:
  with inputs of the documented shapes, both stop at line 103 with the NameError of the
  unbound helper \<open>create_target_volume\<close>, whatever the helper would compute.
\<close>

theorem frustum_repetition_raises:
  "bind_err (SpatialVolumeNet_default 256 4 16) (\<lambda>self.
     construct_view_frustum_volume View_feature_extractor_globals ext self
       [1, 64, 32, 32, 32] [1, 256] [1, 16, 4] [16, 3, 4] [16, 3, 3]
       \<lparr> ishape = [1, 1], idata = [0] \<rparr>) = Inl (NameError ''create_target_volume'')
   \<and> bind_err (SpatialVolumeNet_default 256 4 16) (\<lambda>self.
     construct_view_frustum_volume View_feature_extractor_globals ext self
       [1, 64, 32, 32, 32] [1, 256] [1, 16, 4] [16, 3, 4] [16, 3, 3]
       \<lparr> ishape = [1, 2], idata = [0, 0] \<rparr>) = Inl (NameError ''create_target_volume'')"
proof -
  from SpatialVolumeNet_init_fields [of 256 4 16 256 48 32 "5 / 10" "86603 / 100000"]
  obtain self where s: "SpatialVolumeNet_default 256 4 16 = Inr self"
    unfolding SpatialVolumeNet_default_def by blast
  have g: "View_feature_extractor_globals = View_feature_extractor_globals
             \<or> View_feature_extractor_globals = View_feature_extractor_net_globals"
    by simp
  have i: "ishape \<lparr> ishape = [1, 1], idata = [0] \<rparr> = [1, 1]"
    and j: "ishape \<lparr> ishape = [1, 2], idata = [0, 0] \<rparr> = [1, 2]"
    by simp_all
  have a: "construct_view_frustum_volume View_feature_extractor_globals ext self sv t v
             [16, 3, 4] [16, 3, 3] \<lparr> ishape = [1, 1], idata = [0] \<rparr>
             = Inl (NameError ''create_target_volume'')" for sv t v
    unfolding frustum_volume_until_helper [OF g i]
    by (simp add: index_rows_def index_in_range_def)
  have b: "construct_view_frustum_volume View_feature_extractor_globals ext self sv t v
             [16, 3, 4] [16, 3, 3] \<lparr> ishape = [1, 2], idata = [0, 0] \<rparr>
             = Inl (NameError ''create_target_volume'')" for sv t v
    unfolding frustum_volume_until_helper [OF g j]
    by (simp add: index_rows_def index_in_range_def)
  show ?thesis
    unfolding s bind_err_Inr a b by simp
qed

subsection \<open>Viewpoint embedding\<close>

lemma get_viewpoint_embedding_ok:
  assumes "azimuth \<noteq> []" and "length elevation_ref = B"
  shows "get_viewpoint_embedding azimuth B elevation_ref =
           Inr (map (\<lambda>b. map (\<lambda>n. [elevation_ref ! b - deg2rad 30,
                                     sin (azimuth ! n - azimuth ! 0),
                                     cos (azimuth ! n - azimuth ! 0), 0])
                              [0..<length azimuth])
                    [0..<B])"
  using assms
  by (simp add: get_viewpoint_embedding_def Let_def list.case_eq_if hd_conv_nth
        del: upt_Suc cong: map_cong)

text \<open>
  Claim C4. For every batch size \<open>B\<close>, every \<open>elevation_ref\<close> of \<open>B\<close> entries (the
  shape its docstring gives) and a buffer of \<open>N \<ge> 1\<close> azimuths,
  \<open>get_viewpoint_embedding\<close> returns a \<open>(B, N, 4)\<close> tensor whose last component is 0
  everywhere; where the reference elevation is the target elevation of 30 degrees, the
  entry of view 0 is \<open>(0, sin = 0, cos = 1, 0)\<close>.
\<close>

theorem viewpoint_embedding_shape_and_reference:
  assumes "azimuth \<noteq> []" and "length elevation_ref = B"
  shows "\<exists>emb. get_viewpoint_embedding azimuth B elevation_ref = Inr emb
           \<and> length emb = B
           \<and> (\<forall>b < B. length (emb ! b) = length azimuth
                 \<and> (\<forall>n < length azimuth. length (emb ! b ! n) = 4 \<and> emb ! b ! n ! 3 = 0))
           \<and> (\<forall>b < B. elevation_ref ! b = deg2rad 30 \<longrightarrow> emb ! b ! 0 = [0, 0, 1, 0])"
proof -
  have "0 < length azimuth" using assms(1) by simp
  then show ?thesis
    unfolding get_viewpoint_embedding_ok [OF assms]
    by (simp del: upt_Suc)
qed

theorem viewpoint_embedding_shape_and_reference_witness:
  "\<exists>emb. get_viewpoint_embedding [0, pi / 2] 1 [deg2rad 30] = Inr emb
       \<and> length emb = 1 \<and> length (emb ! 0) = 2 \<and> emb ! 0 ! 0 = [0, 0, 1, 0]
       \<and> emb ! 0 ! 1 ! 3 = 0"
proof -
  have "[0, pi / 2] \<noteq> ([]::real list)" and "length [deg2rad 30] = 1" by simp_all
  from viewpoint_embedding_shape_and_reference [OF this] show ?thesis
    by (auto simp: numeral_2_eq_2)
qed

subsection \<open>Target indices are not validated\<close>

text \<open>
  Claim C5. \<open>construct_view_frustum_volume\<close> does not validate the target view indices.
  When every entry of \<open>target_indices\<close> lies in \<open>[0, N)\<close>, \<open>N\<close> the number of stored
  poses and intrinsics, both table lookups succeed, and the call goes on to line 103
  (where, in either module, the helper's name is unbound). When an entry lies outside
  \<open>[-N, N)\<close>, such as \<open>N\<close> itself, the call fails with the runtime's generic
  IndexError; there is no error of the core's own.
\<close>

theorem target_indices_unvalidated:
  assumes "g = View_feature_extractor_globals \<or> g = View_feature_extractor_net_globals"
    and "ishape ti = [B, TN]" and "poses = N # prest" and "Ks = N # krest"
  shows "((\<forall>i \<in> set (idata ti). 0 \<le> i \<and> i < int N) \<longrightarrow>
            index_rows poses (idata ti) = Inr (length (idata ti) # prest)
          \<and> index_rows Ks (idata ti) = Inr (length (idata ti) # krest)
          \<and> construct_view_frustum_volume g ext self sv t v poses Ks ti
              = Inl (NameError ''create_target_volume''))
       \<and> ((\<exists>i \<in> set (idata ti). i < - int N \<or> int N \<le> i) \<longrightarrow>
            construct_view_frustum_volume g ext self sv t v poses Ks ti = Inl IndexError)"
proof (intro conjI impI)
  assume r: "\<forall>i \<in> set (idata ti). 0 \<le> i \<and> i < int N"
  then have "\<forall>i \<in> set (idata ti). - int N \<le> i \<and> i < int N" by auto
  then show p: "index_rows poses (idata ti) = Inr (length (idata ti) # prest)"
    and k: "index_rows Ks (idata ti) = Inr (length (idata ti) # krest)"
    unfolding assms(3,4) by (rule index_rows_in_range)+
  show "construct_view_frustum_volume g ext self sv t v poses Ks ti
          = Inl (NameError ''create_target_volume'')"
    by (simp add: frustum_volume_until_helper [OF assms(1,2)] p k)
next
  assume "\<exists>i \<in> set (idata ti). i < - int N \<or> int N \<le> i"
  then have "index_rows poses (idata ti) = Inl IndexError"
    unfolding assms(3) by (rule index_rows_out_of_range)
  then show "construct_view_frustum_volume g ext self sv t v poses Ks ti = Inl IndexError"
    by (simp add: frustum_volume_until_helper [OF assms(1,2)])
qed

theorem target_indices_unvalidated_witness:
  "\<exists>self. SpatialVolumeNet_default 256 4 16 = Inr self
     \<and> construct_view_frustum_volume View_feature_extractor_globals
          \<lparr> get_warp_coordinates_impl = (\<lambda>_ _ _ _ _. Inl RuntimeError),
            create_target_volume_impl = (\<lambda>_ _ _ _ _ _ _. Inl RuntimeError) \<rparr>
          self [1, 64, 32, 32, 32] [1, 256] [1, 16, 4] [16, 3, 4] [16, 3, 3]
          \<lparr> ishape = [1, 2], idata = [0, 15] \<rparr>
        = Inl (NameError ''create_target_volume'')
     \<and> construct_view_frustum_volume View_feature_extractor_globals
          \<lparr> get_warp_coordinates_impl = (\<lambda>_ _ _ _ _. Inl RuntimeError),
            create_target_volume_impl = (\<lambda>_ _ _ _ _ _ _. Inl RuntimeError) \<rparr>
          self [1, 64, 32, 32, 32] [1, 256] [1, 16, 4] [16, 3, 4] [16, 3, 3]
          \<lparr> ishape = [1, 2], idata = [0, 16] \<rparr>
        = Inl IndexError"
proof -
  from SpatialVolumeNet_init_fields [of 256 4 16 256 48 32 "5 / 10" "86603 / 100000"]
  obtain self where s: "SpatialVolumeNet_default 256 4 16 = Inr self"
    unfolding SpatialVolumeNet_default_def by blast
  let ?g = View_feature_extractor_globals
  have g: "?g = View_feature_extractor_globals \<or> ?g = View_feature_extractor_net_globals"
    by simp
  have a: "ishape \<lparr> ishape = [1, 2], idata = [0, 15] \<rparr> = [1, 2]"
    and b: "ishape \<lparr> ishape = [1, 2], idata = [0, 16] \<rparr> = [1, 2]"
    and p: "[16, 3, 4] = 16 # [3, 4::nat]" and k: "[16, 3, 3] = 16 # [3, 3::nat]"
    by simp_all
  from target_indices_unvalidated [OF g a p k]
       target_indices_unvalidated [OF g b p k] s
  show ?thesis by (intro exI [of _ self]) simp
qed

subsection \<open>Near and far bounds of the frustum\<close>

lemma nth_ones4:
  "b < n \<Longrightarrow> i < h \<Longrightarrow> j < w \<Longrightarrow> map4 f (ones4 n (Suc 0) h w) ! b ! 0 ! i ! j = f 1"
  by (simp add: map4_def ones4_def)

text \<open>
  Claim C6. For every batch element and every pixel of the frustum grid, the near and far
  bounds built by \<open>construct_view_frustum_volume\<close> are the constants
  \<open>default_origin_depth - frustum_volume_length\<close> and
  \<open>default_origin_depth + frustum_volume_length\<close>, so their midpoint is the assumed
  origin depth; with the constructor's defaults they are \<open>1.5 - 0.86603\<close> and
  \<open>1.5 + 0.86603\<close>, the origin depth is 1.5 and near is below far.
\<close>

theorem frustum_bounds_symmetric:
  assumes "b < B * TN" and "i < frustum_volume_size self" and "j < frustum_volume_size self"
  shows "frustum_near self B TN ! b ! 0 ! i ! j
           = default_origin_depth self - frustum_volume_length self
       \<and> frustum_far self B TN ! b ! 0 ! i ! j
           = default_origin_depth self + frustum_volume_length self
       \<and> (frustum_near self B TN ! b ! 0 ! i ! j + frustum_far self B TN ! b ! 0 ! i ! j) / 2
           = default_origin_depth self
       \<and> (SpatialVolumeNet_default tdim vdim vnum = Inr self \<longrightarrow>
            frustum_near self B TN ! b ! 0 ! i ! j = 15 / 10 - 86603 / 100000
          \<and> frustum_far self B TN ! b ! 0 ! i ! j = 15 / 10 + 86603 / 100000
          \<and> default_origin_depth self = 15 / 10
          \<and> frustum_near self B TN ! b ! 0 ! i ! j < frustum_far self B TN ! b ! 0 ! i ! j)"
proof -
  have n: "frustum_near self B TN ! b ! 0 ! i ! j
             = default_origin_depth self - frustum_volume_length self"
    using assms by (simp add: frustum_near_def Let_def nth_ones4)
  have f: "frustum_far self B TN ! b ! 0 ! i ! j
             = default_origin_depth self + frustum_volume_length self"
    using assms by (simp add: frustum_far_def Let_def nth_ones4)
  have d: "default_origin_depth self = 15 / 10 \<and> frustum_volume_length self = 86603 / 100000"
    if "SpatialVolumeNet_default tdim vdim vnum = Inr self"
    using that SpatialVolumeNet_init_fields [of tdim vdim vnum 256 48 32 "5 / 10" "86603 / 100000"]
    by (auto simp: SpatialVolumeNet_default_def)
  show ?thesis
    unfolding n f using d by auto
qed

theorem frustum_bounds_symmetric_witness:
  "\<exists>self. SpatialVolumeNet_default 256 4 16 = Inr self
      \<and> frustum_near self 2 3 ! 5 ! 0 ! 31 ! 0 = 63397 / 100000
      \<and> frustum_far self 2 3 ! 5 ! 0 ! 31 ! 0 = 236603 / 100000"
proof -
  from SpatialVolumeNet_init_fields [of 256 4 16 256 48 32 "5 / 10" "86603 / 100000"]
  obtain self where s: "SpatialVolumeNet_default 256 4 16 = Inr self"
    and z: "frustum_volume_size self = 256 div 8"
    unfolding SpatialVolumeNet_default_def by blast
  have "(5::nat) < 2 * 3" and "31 < frustum_volume_size self" and "0 < frustum_volume_size self"
    by (simp_all add: z)
  from frustum_bounds_symmetric [OF this, of 256 4 16] s show ?thesis by auto
qed

subsection \<open>Azimuth normalisation\<close>

lemma np_mod_range:
  assumes "0 < y"
  shows "0 \<le> np_mod x y \<and> np_mod x y < y"
proof -
  have "of_int \<lfloor>x / y\<rfloor> * y \<le> x"
    using of_int_floor_le [of "x / y"] assms by (simp only: pos_le_divide_eq)
  then have le: "y * of_int \<lfloor>x / y\<rfloor> \<le> x"
    by (simp add: mult.commute)
  have "x / y < of_int \<lfloor>x / y\<rfloor> + 1" by linarith
  then have "x < (of_int \<lfloor>x / y\<rfloor> + 1) * y"
    using assms by (simp only: pos_divide_less_eq)
  then have lt: "x < y * of_int \<lfloor>x / y\<rfloor> + y"
    by (simp add: algebra_simps)
  show ?thesis using le lt by (simp add: np_mod_def)
qed

lemma normalize_azimuth_range: "- pi \<le> normalize_azimuth a \<and> normalize_azimuth a < pi"
  using np_mod_range [of "pi * 2" "a + pi"] by (simp add: normalize_azimuth_def)

lemma normalize_azimuth_congruent: "\<exists>k::int. normalize_azimuth a = a + 2 * pi * of_int k"
  by (rule exI [of _ "- \<lfloor>(a + pi) / (pi * 2)\<rfloor>"]) (simp add: normalize_azimuth_def np_mod_def)

lemma normalize_azimuth_multiple: "normalize_azimuth (2 * pi * of_int k) = 0"
proof -
  have "(2 * pi * of_int k + pi) / (pi * 2) = of_int k + 1 / 2"
    by (simp add: field_simps)
  then have "\<lfloor>(2 * pi * of_int k + pi) / (pi * 2)\<rfloor> = k"
    by (simp add: floor_unique)
  then show ?thesis by (simp add: normalize_azimuth_def np_mod_def algebra_simps)
qed


text \<open>
  Claim C7. The normalisation \<open>a \<mapsto> ((a + pi) mod 2 pi) - pi\<close> written on line 174
  maps every real azimuth into \<open>[-pi, pi]\<close>, to a value that differs from the input by
  an integer multiple of \<open>2 pi\<close>, and every multiple of \<open>2 pi\<close> to 0. But
  \<open>_init_multiview\<close> does not reach that line: the module binds no \<open>read_pickle\<close>,
  so every call raises NameError on line 165 and no buffer is stored, whatever the file
  holds.
\<close>

theorem init_multiview_unreached:
  "(\<forall>a. - pi \<le> normalize_azimuth a \<and> normalize_azimuth a \<le> pi
        \<and> (\<exists>k::int. normalize_azimuth a = a + 2 * pi * of_int k))
   \<and> (\<forall>k::int. normalize_azimuth (2 * pi * of_int k) = 0)
   \<and> init_multiview View_feature_extractor_globals read_pickle_impl view_num image_size
       = Inl (NameError ''read_pickle'')"
proof -
  have range: "\<forall>a. - pi \<le> normalize_azimuth a \<and> normalize_azimuth a \<le> pi
        \<and> (\<exists>k::int. normalize_azimuth a = a + 2 * pi * of_int k)"
    using normalize_azimuth_range normalize_azimuth_congruent by (simp add: less_imp_le)
  have unbound: "resolve View_feature_extractor_globals ''read_pickle''
                   = Inl (NameError ''read_pickle'')"
    by (simp add: resolve_def View_feature_extractor_globals_def)
  have "init_multiview View_feature_extractor_globals read_pickle_impl view_num image_size
          = Inl (NameError ''read_pickle'')"
    unfolding init_multiview_def unbound by (simp add: bind_err_def)
  then show ?thesis
    using range normalize_azimuth_multiple by simp
qed

subsection \<open>The frame of a forward pass\<close>

lemma framesD:
  assumes "frames n m Q" and "n \<le> brk w" and "m w = (r, w')"
  shows "n \<le> brk w' \<and> (\<forall>a<n. heap w' a = heap w a) \<and> (\<forall>x. r = Inr x \<longrightarrow> Q x)"
proof -
  from assms(1)
  have "\<forall>w. n \<le> brk w \<longrightarrow>
          (case m w of (r, w') \<Rightarrow> n \<le> brk w' \<and> (\<forall>a<n. heap w' a = heap w a)
             \<and> (case r of Inl _ \<Rightarrow> True | Inr x \<Rightarrow> Q x))"
    by (simp only: frames_def)
  then have "case m w of (r, w') \<Rightarrow> n \<le> brk w' \<and> (\<forall>a<n. heap w' a = heap w a)
             \<and> (case r of Inl _ \<Rightarrow> True | Inr x \<Rightarrow> Q x)"
    using assms(2) by simp
  then have "n \<le> brk w' \<and> (\<forall>a<n. heap w' a = heap w a)
             \<and> (case r of Inl _ \<Rightarrow> True | Inr x \<Rightarrow> Q x)"
    by (simp add: assms(3))
  then show ?thesis by (cases r) simp_all
qed

lemma framesI:
  assumes "\<And>w r w'. n \<le> brk w \<Longrightarrow> m w = (r, w') \<Longrightarrow>
             n \<le> brk w' \<and> (\<forall>a<n. heap w' a = heap w a) \<and> (\<forall>x. r = Inr x \<longrightarrow> Q x)"
  shows "frames n m Q"
  unfolding frames_def
proof (intro allI impI)
  fix w :: "'a world"
  assume n: "n \<le> brk w"
  obtain r w' where mw: "m w = (r, w')" by (cases "m w")
  have "n \<le> brk w' \<and> (\<forall>a<n. heap w' a = heap w a)
          \<and> (case r of Inl _ \<Rightarrow> True | Inr x \<Rightarrow> Q x)"
    using assms [OF n mw] by (cases r) simp_all
  then show "case m w of (r, w') \<Rightarrow> n \<le> brk w' \<and> (\<forall>a<n. heap w' a = heap w a)
          \<and> (case r of Inl _ \<Rightarrow> True | Inr x \<Rightarrow> Q x)"
    by (simp add: mw)
qed

lemma frames_then:
  assumes "frames n m (\<lambda>x. frames n (f x) Q)"
  shows "frames n (then_do m f) Q"
proof (rule framesI)
  fix w :: "'a world" and r w'
  assume n: "n \<le> brk w" and run: "then_do m f w = (r, w')"
  obtain r1 w1 where mw: "m w = (r1, w1)" by (cases "m w")
  note m1 = framesD [OF assms n mw]
  show "n \<le> brk w' \<and> (\<forall>a<n. heap w' a = heap w a) \<and> (\<forall>x. r = Inr x \<longrightarrow> Q x)"
  proof (cases r1)
    case (Inl e)
    with run mw have "r = Inl e" "w' = w1" by (simp_all add: then_do_def)
    then show ?thesis using m1 by simp
  next
    case (Inr x)
    with run mw have fw: "f x w1 = (r, w')" by (simp add: then_do_def)
    from m1 Inr have "frames n (f x) Q" and n1: "n \<le> brk w1" by simp_all
    from framesD [OF this fw] m1 show ?thesis by simp
  qed
qed

lemma frames_return: "Q x \<Longrightarrow> frames n (return_ok x) Q"
  by (simp add: frames_def return_ok_def)

lemma frames_raise: "frames n (raise_err e) Q"
  by (simp add: frames_def raise_err_def)

lemma frames_lift: "(\<And>x. Q x) \<Longrightarrow> frames n (lift_err r) Q"
  by (simp add: frames_def lift_err_def split: sum.split)

lemma frames_kernel: "(\<And>t. fresh n t \<Longrightarrow> Q t) \<Longrightarrow> frames n (run_kernel R f ts) Q"
  by (auto simp: frames_def run_kernel_def fresh_def split: sum.split prod.split)

lemma frames_view:
  "(\<And>t'. storage t' = storage t \<Longrightarrow> Q t') \<Longrightarrow> frames n (run_view R f t) Q"
  by (auto simp: frames_def run_view_def split: sum.split)

lemma frames_inplace: "fresh n t \<Longrightarrow> Q t \<Longrightarrow> frames n (run_inplace R f t) Q"
  by (auto simp: frames_def run_inplace_def fresh_def split: option.split)

lemma frames_unpack: "(\<And>s. Q s) \<Longrightarrow> frames n (unpack_shape R k t) Q"
  by (simp add: unpack_shape_def frames_return frames_raise)

lemma frames_layer: "(\<And>t. fresh n t \<Longrightarrow> Q t) \<Longrightarrow> frames n (layer R f self x) Q"
  unfolding layer_def by (rule frames_kernel)

lemma frames_plus: "(\<And>t. fresh n t \<Longrightarrow> Q t) \<Longrightarrow> frames n (tensor_plus R x y) Q"
  unfolding tensor_plus_def by (rule frames_kernel)

lemma frames_SiLU: "fresh n t \<Longrightarrow> Q t \<Longrightarrow> frames n (SiLU_inplace R t) Q"
  unfolding SiLU_inplace_def by (rule frames_inplace)

lemmas frames_prims = frames_then frames_return frames_raise frames_lift frames_kernel
  frames_view frames_unpack frames_layer frames_plus frames_SiLU

lemma frames_Image2DResBlockWithTV:
  assumes Q: "\<And>y. fresh n y \<Longrightarrow> Q y"
  shows "frames n (Image2DResBlockWithTV_call R self x t v) Q"
  unfolding Image2DResBlockWithTV_call_def
  by (intro frames_prims Q) assumption+

lemma frames_NoisyTargetViewEncoder:
  assumes Q: "\<And>y. fresh n y \<Longrightarrow> Q y"
  shows "frames n (NoisyTargetViewEncoder_call R self x t v) Q"
  unfolding NoisyTargetViewEncoder_call_def
  by (intro frames_prims frames_Image2DResBlockWithTV Q) assumption+

lemma frames_SpatialTimeBlock:
  assumes Q: "\<And>y. fresh n y \<Longrightarrow> Q y"
  shows "frames n (SpatialTimeBlock_call R conv self x t) Q"
  unfolding SpatialTimeBlock_call_def
  by (intro frames_prims Q) assumption+

lemma frames_SpatialUpTimeBlock:
  assumes Q: "\<And>y. fresh n y \<Longrightarrow> Q y"
  shows "frames n (SpatialUpTimeBlock_call R self x t) Q"
  unfolding SpatialUpTimeBlock_call_def
  by (intro frames_prims Q) assumption+

lemma frames_SpatialTime3DNet:
  assumes Q: "\<And>y. fresh n y \<Longrightarrow> Q y"
  shows "frames n (SpatialTime3DNet_call R self x t) Q"
  unfolding SpatialTime3DNet_call_def
  by (intro frames_prims frames_SpatialTimeBlock frames_SpatialUpTimeBlock Q) assumption+

lemma frames_FrustumTVBlock:
  assumes Q: "\<And>y. fresh n y \<Longrightarrow> Q y"
  shows "frames n (FrustumTVBlock_call R conv self x t v) Q"
  unfolding FrustumTVBlock_call_def
  by (intro frames_prims Q) assumption+

lemma frames_FrustumTVUpBlock:
  assumes Q: "\<And>y. fresh n y \<Longrightarrow> Q y"
  shows "frames n (FrustumTVUpBlock_call R self x t v) Q"
  unfolding FrustumTVUpBlock_call_def
  by (intro frames_prims Q) assumption+

lemma dict_set_fresh:
  "fresh n v \<Longrightarrow> list_all (\<lambda>e. fresh n (snd e)) d
     \<Longrightarrow> list_all (\<lambda>e. fresh n (snd e)) (dict_set d k v)"
  by (induction d k v rule: dict_set.induct) auto

lemma frames_FrustumTV3DNet:
  assumes Q: "\<And>d. list_all (\<lambda>e. fresh n (snd e)) d \<Longrightarrow> Q d"
  shows "frames n (FrustumTV3DNet_call R self x t v) Q"
  unfolding FrustumTV3DNet_call_def
  by (intro frames_prims frames_FrustumTVBlock frames_FrustumTVUpBlock Q dict_set_fresh)
     simp_all

lemma frames_weaken:
  assumes "frames n m P" and "\<And>x. P x \<Longrightarrow> Q x"
  shows "frames n m Q"
proof (rule framesI)
  fix w :: "'a world" and r w'
  assume a: "n \<le> brk w" "m w = (r, w')"
  from framesD [OF assms(1) a] assms(2)
  show "n \<le> brk w' \<and> (\<forall>a<n. heap w' a = heap w a) \<and> (\<forall>x. r = Inr x \<longrightarrow> Q x)"
    by simp
qed

lemma frames_get_warp_coordinates:
  assumes "helpers_allocate ext" and "fresh n verts" and "fresh n K" and "fresh n P"
    and Q: "\<And>c. fresh n c \<Longrightarrow> Q c"
  shows "frames n (get_warp_coordinates_call ext verts w sz K P) Q"
proof -
  from assms(1-4) have "frames n (get_warp_coordinates_call ext verts w sz K P) (fresh n)"
    by (simp add: helpers_allocate_def)
  then show ?thesis by (rule frames_weaken) (rule Q)
qed

lemma frames_create_target_volume:
  assumes "helpers_allocate ext" and "fresh n P" and "fresh n K" and "fresh n near"
    and "fresh n far"
    and Q: "\<And>vol. fresh n (fst vol) \<Longrightarrow> fresh n (snd vol) \<Longrightarrow> Q vol"
  shows "frames n (create_target_volume_call ext D sz isz P K near far) Q"
proof -
  from assms(1-5)
  have "frames n (create_target_volume_call ext D sz isz P K near far)
          (\<lambda>vol. fresh n (fst vol) \<and> fresh n (snd vol))"
    by (simp add: helpers_allocate_def)
  then show ?thesis by (rule frames_weaken) (simp add: Q)
qed

lemma frames_shape_at: "(\<And>x. Q x) \<Longrightarrow> frames n (shape_at_call R t i) Q"
  unfolding shape_at_call_def by (rule frames_lift)

lemma frames_shape_last: "(\<And>x. Q x) \<Longrightarrow> frames n (shape_last_call R t) Q"
  unfolding shape_last_call_def by (rule frames_lift)

lemma frames_case_option:
  assumes "frames n a Q" and "\<And>c. frames n (b c) Q"
  shows "frames n (case x of None \<Rightarrow> a | Some c \<Rightarrow> b c) Q"
  using assms by (cases x) simp_all

lemma fresh_view: "storage t' = storage t \<Longrightarrow> fresh n t \<Longrightarrow> fresh n t'"
  by (simp add: fresh_def)

lemma frames_project_source_view:
  assumes H: "helpers_allocate ext"
    and verts: "fresh n spatial_volume_verts"
    and poses: "fresh n target_poses" and Ks: "fresh n target_Ks"
    and Q: "\<And>r. Q r"
  shows "frames n (project_source_view_call R g ext self params x t_embed' v_embed'
           target_poses target_Ks spatial_volume_verts B V ni) Q"
  unfolding project_source_view_call_def
  by (intro frames_prims frames_shape_at frames_shape_last frames_NoisyTargetViewEncoder
        frames_get_warp_coordinates [OF H verts] Q)
     (simp_all add: fresh_view [OF _ poses] fresh_view [OF _ Ks])

lemma frames_project_source_views:
  assumes H: "helpers_allocate ext"
    and verts: "fresh n spatial_volume_verts"
    and poses: "fresh n target_poses" and Ks: "fresh n target_Ks"
    and Q: "\<And>r. Q r"
  shows "frames n (project_source_views_call R g ext self params x t_embed' v_embed'
           target_poses target_Ks spatial_volume_verts B V nis acc) Q"
proof (induction nis arbitrary: acc)
  case Nil
  show ?case by (simp add: frames_return Q)
next
  case (Cons ni nis)
  show ?case
    unfolding project_source_views_call.simps
    by (rule frames_then, rule frames_project_source_view [OF H verts poses Ks])
       (rule Cons.IH)
qed

lemma frames_construct_spatial_volume:
  assumes H: "helpers_allocate ext"
  shows "frames n (construct_spatial_volume_call R g ext self params x t_embed v_embed
           target_poses target_Ks) (fresh n)"
  unfolding construct_spatial_volume_call_def
  by (intro frames_prims frames_shape_at frames_case_option
        frames_project_source_views [OF H] frames_SpatialTime3DNet)
     assumption+

lemma frames_construct_view_frustum_volume:
  assumes H: "helpers_allocate ext"
  shows "frames n (construct_view_frustum_volume_call R g ext self params spatial_volume
           t_embed v_embed poses Ks target_indices)
           (\<lambda>r. list_all (\<lambda>e. fresh n (snd e)) (fst r) \<and> fresh n (snd r))"
  unfolding construct_view_frustum_volume_call_def
  by (intro frames_prims frames_create_target_volume [OF H] frames_FrustumTV3DNet)
     simp_all



subsection \<open>Two calls on equal values\<close>

lemma alikeD:
  assumes "alike b1 b2 old m1 m2 Q" and "sim b1 b2 old w1 w2"
  shows "sim b1 b2 old (snd (m1 w1)) (snd (m2 w2))"
    and "same_outcome Q (fst (m1 w1)) (fst (m2 w2))"
  using assms by (simp_all add: alike_def)

lemma alikeI:
  assumes "\<And>w1 w2. sim b1 b2 old w1 w2 \<Longrightarrow>
             sim b1 b2 old (snd (m1 w1)) (snd (m2 w2))
             \<and> same_outcome Q (fst (m1 w1)) (fst (m2 w2))"
  shows "alike b1 b2 old m1 m2 Q"
  using assms by (simp add: alike_def)

lemma alike_then:
  assumes "alike b1 b2 old m1 m2 (\<lambda>x1 x2. alike b1 b2 old (f1 x1) (f2 x2) Q)"
  shows "alike b1 b2 old (then_do m1 f1) (then_do m2 f2) Q"
proof (rule alikeI)
  fix w1 w2 :: "'a world"
  assume s: "sim b1 b2 old w1 w2"
  obtain r1 w1' where m1: "m1 w1 = (r1, w1')" by (cases "m1 w1")
  obtain r2 w2' where m2: "m2 w2 = (r2, w2')" by (cases "m2 w2")
  from alikeD [OF assms s] m1 m2
  have s': "sim b1 b2 old w1' w2'"
    and o: "same_outcome (\<lambda>x1 x2. alike b1 b2 old (f1 x1) (f2 x2) Q) r1 r2"
    by simp_all
  show "sim b1 b2 old (snd (then_do m1 f1 w1)) (snd (then_do m2 f2 w2))
        \<and> same_outcome Q (fst (then_do m1 f1 w1)) (fst (then_do m2 f2 w2))"
  proof (cases r1)
    case (Inl e)
    with o have "r2 = Inl e" by (simp add: same_outcome_def)
    with Inl m1 m2 s' show ?thesis by (simp add: then_do_def same_outcome_def)
  next
    case (Inr x1)
    with o obtain x2 where r2: "r2 = Inr x2" and a: "alike b1 b2 old (f1 x1) (f2 x2) Q"
      by (cases r2) (simp_all add: same_outcome_def)
    from alikeD [OF a s'] Inr r2 m1 m2 show ?thesis by (simp add: then_do_def)
  qed
qed

lemma alike_return: "Q x1 x2 \<Longrightarrow> alike b1 b2 old (return_ok x1) (return_ok x2) Q"
  by (simp add: alike_def return_ok_def same_outcome_def)

lemma alike_raise: "alike b1 b2 old (raise_err e) (raise_err e) Q"
  by (simp add: alike_def raise_err_def same_outcome_def)

lemma alike_lift: "(\<And>x. Q x x) \<Longrightarrow> alike b1 b2 old (lift_err r) (lift_err r) Q"
  by (cases r) (simp_all add: alike_def lift_err_def same_outcome_def)

lemma sim_read:
  assumes "sim b1 b2 old w1 w2" and "correspond b1 b2 old t1 t2"
  shows "heap w1 (storage t1) = heap w2 (storage t2)"
proof -
  from assms(2) consider "old (storage t1) (storage t2)"
    | "b1 \<le> storage t1" "b2 \<le> storage t2" "storage t1 - b1 = storage t2 - b2"
    by (auto simp: correspond_def)
  then show ?thesis
  proof cases
    case 1
    with assms(1) show ?thesis by (simp add: sim_def)
  next
    case 2
    from assms(1) have "heap w1 (b1 + (storage t1 - b1)) = heap w2 (b2 + (storage t1 - b1))"
      by (simp add: sim_def)
    moreover from 2 have "b1 + (storage t1 - b1) = storage t1"
      and "b2 + (storage t1 - b1) = storage t2" by arith+
    ultimately show ?thesis by (simp only:)
  qed
qed

lemma read_all_sim:
  assumes "sim b1 b2 old w1 w2" and "list_all2 (correspond b1 b2 old) ts1 ts2"
  shows "read_all w1 ts1 = read_all w2 ts2"
  using assms(2)
proof (induction rule: list_all2_induct)
  case Nil
  show ?case by simp
next
  case (Cons t1 ts1 t2 ts2)
  from Cons.hyps(1) have "meta t1 = meta t2" by (simp add: correspond_def)
  with sim_read [OF assms(1) Cons.hyps(1)] Cons.IH show ?case
    by (simp split: option.split)
qed

lemma alike_kernel:
  assumes ts: "list_all2 (correspond b1 b2 old) ts1 ts2"
    and Q: "\<And>t1 t2. allocated_alike b1 b2 t1 t2 \<Longrightarrow> Q t1 t2"
  shows "alike b1 b2 old (run_kernel R f ts1) (run_kernel R f ts2) Q"
proof (rule alikeI)
  fix w1 w2 :: "'b world"
  assume s: "sim b1 b2 old w1 w2"
  note rd = read_all_sim [OF s ts]
  show "sim b1 b2 old (snd (run_kernel R f ts1 w1)) (snd (run_kernel R f ts2 w2))
        \<and> same_outcome Q (fst (run_kernel R f ts1 w1)) (fst (run_kernel R f ts2 w2))"
  proof (cases "bind_err (read_all w2 ts2) (kernel R f)")
    case (Inl e)
    then show ?thesis using s rd by (simp add: run_kernel_def same_outcome_def)
  next
    case (Inr mv)
    obtain m v where mv: "mv = (m, v)" by (cases mv)
    have al: "allocated_alike b1 b2 \<lparr> storage = brk w1, meta = m \<rparr>
                \<lparr> storage = brk w2, meta = m \<rparr>"
      using s by (simp add: allocated_alike_def sim_def)
    have s': "sim b1 b2 old (w1 \<lparr> heap := (heap w1)(brk w1 \<mapsto> v), brk := Suc (brk w1) \<rparr>)
                (w2 \<lparr> heap := (heap w2)(brk w2 \<mapsto> v), brk := Suc (brk w2) \<rparr>)"
      using s unfolding sim_def
      by (auto simp: Suc_diff_le) (metis add_diff_inverse_nat diff_add_inverse not_less)+
    show ?thesis
      using Inr mv rd s' Q [OF al] by (simp add: run_kernel_def same_outcome_def)
  qed
qed

lemma alike_correspond:
  "allocated_alike b1 b2 t1 t2 \<Longrightarrow> correspond b1 b2 old t1 t2"
  by (simp add: allocated_alike_def correspond_def)

lemma alike_view:
  assumes t: "correspond b1 b2 old t1 t2"
    and Q: "\<And>t1' t2'. correspond b1 b2 old t1' t2' \<Longrightarrow> Q t1' t2'"
  shows "alike b1 b2 old (run_view R f t1) (run_view R f t2) Q"
proof (rule alikeI)
  fix w1 w2 :: "'b world"
  assume s: "sim b1 b2 old w1 w2"
  from t have m: "meta t1 = meta t2" by (simp add: correspond_def)
  show "sim b1 b2 old (snd (run_view R f t1 w1)) (snd (run_view R f t2 w2))
        \<and> same_outcome Q (fst (run_view R f t1 w1)) (fst (run_view R f t2 w2))"
  proof (cases "reshape R f (meta t2)")
    case (Inl e)
    then show ?thesis using s m by (simp add: run_view_def same_outcome_def)
  next
    case (Inr m')
    have "correspond b1 b2 old \<lparr> storage = storage t1, meta = m' \<rparr>
            \<lparr> storage = storage t2, meta = m' \<rparr>"
      using t by (simp add: correspond_def)
    from Q [OF this] Inr s m show ?thesis by (simp add: run_view_def same_outcome_def)
  qed
qed

lemma sim_update:
  assumes s: "sim b1 b2 old w1 w2"
    and a: "b1 \<le> a1" "b2 \<le> a2" "a1 - b1 = a2 - b2"
  shows "sim b1 b2 old (w1 \<lparr> heap := (heap w1)(a1 \<mapsto> v) \<rparr>)
           (w2 \<lparr> heap := (heap w2)(a2 \<mapsto> v) \<rparr>)"
proof -
  have eq: "b1 + k = a1 \<longleftrightarrow> b2 + k = a2" for k
    using a by arith
  have old1: "a1' \<noteq> a1" if "a1' < b1" for a1' using that a(1) by simp
  have old2: "a2' \<noteq> a2" if "a2' < b2" for a2' using that a(2) by simp
  from s have fresh_eq: "heap w1 (b1 + k) = heap w2 (b2 + k)" for k
    by (simp add: sim_def)
  from s have old_eq: "old a1' a2' \<Longrightarrow> a1' < b1 \<and> a2' < b2 \<and> heap w1 a1' = heap w2 a2'"
    for a1' a2'
    by (simp add: sim_def)
  have "\<forall>k. ((heap w1)(a1 \<mapsto> v)) (b1 + k) = ((heap w2)(a2 \<mapsto> v)) (b2 + k)"
    using eq fresh_eq by simp
  moreover have "\<forall>a1' a2'. old a1' a2' \<longrightarrow> a1' < b1 \<and> a2' < b2
        \<and> ((heap w1)(a1 \<mapsto> v)) a1' = ((heap w2)(a2 \<mapsto> v)) a2'"
    using old_eq old1 old2 by simp
  moreover from s have "b1 \<le> brk w1 \<and> b2 \<le> brk w2 \<and> brk w1 - b1 = brk w2 - b2"
    by (simp add: sim_def)
  ultimately show ?thesis by (simp add: sim_def)
qed

lemma alike_inplace:
  assumes t: "allocated_alike b1 b2 t1 t2" and Q: "Q t1 t2"
  shows "alike b1 b2 old (run_inplace R f t1) (run_inplace R f t2) Q"
proof (rule alikeI)
  fix w1 w2 :: "'b world"
  assume s: "sim b1 b2 old w1 w2"
  from t have m: "meta t1 = meta t2" and a: "b1 \<le> storage t1" "b2 \<le> storage t2"
    "storage t1 - b1 = storage t2 - b2"
    by (simp_all add: allocated_alike_def)
  note rd = sim_read [OF s alike_correspond [OF t]]
  show "sim b1 b2 old (snd (run_inplace R f t1 w1)) (snd (run_inplace R f t2 w2))
        \<and> same_outcome Q (fst (run_inplace R f t1 w1)) (fst (run_inplace R f t2 w2))"
  proof (cases "heap w2 (storage t2)")
    case None
    then show ?thesis using s rd by (simp add: run_inplace_def same_outcome_def)
  next
    case (Some v)
    from sim_update [OF s a] Some rd m Q show ?thesis
      by (simp add: run_inplace_def same_outcome_def)
  qed
qed

lemma alike_unpack:
  assumes t: "correspond b1 b2 old t1 t2" and Q: "\<And>s. Q s s"
  shows "alike b1 b2 old (unpack_shape R k t1) (unpack_shape R k t2) Q"
proof -
  from t have "meta t1 = meta t2" by (simp add: correspond_def)
  then show ?thesis by (simp add: unpack_shape_def alike_return alike_raise Q)
qed

lemma alike_shape_at:
  assumes t: "correspond b1 b2 old t1 t2" and Q: "\<And>c. Q c c"
  shows "alike b1 b2 old (shape_at_call R t1 i) (shape_at_call R t2 i) Q"
proof -
  from t have "meta t1 = meta t2" by (simp add: correspond_def)
  then show ?thesis by (simp add: shape_at_call_def alike_lift Q)
qed

lemma alike_shape_last:
  assumes t: "correspond b1 b2 old t1 t2" and Q: "\<And>c. Q c c"
  shows "alike b1 b2 old (shape_last_call R t1) (shape_last_call R t2) Q"
proof -
  from t have "meta t1 = meta t2" by (simp add: correspond_def)
  then show ?thesis by (simp add: shape_last_call_def alike_lift Q)
qed

lemma alike_layer:
  assumes P: "\<And>name. correspond b1 b2 old (self1 name) (self2 name)"
    and x: "correspond b1 b2 old x1 x2"
    and Q: "\<And>t1 t2. allocated_alike b1 b2 t1 t2 \<Longrightarrow> Q t1 t2"
  shows "alike b1 b2 old (layer R f self1 x1) (layer R f self2 x2) Q"
  unfolding layer_def by (rule alike_kernel) (simp_all add: P x Q)

lemma alike_plus:
  assumes x: "correspond b1 b2 old x1 x2" and y: "correspond b1 b2 old y1 y2"
    and Q: "\<And>t1 t2. allocated_alike b1 b2 t1 t2 \<Longrightarrow> Q t1 t2"
  shows "alike b1 b2 old (tensor_plus R x1 y1) (tensor_plus R x2 y2) Q"
  unfolding tensor_plus_def by (rule alike_kernel) (simp_all add: x y Q)

lemma alike_SiLU:
  assumes "allocated_alike b1 b2 t1 t2" and "Q t1 t2"
  shows "alike b1 b2 old (SiLU_inplace R t1) (SiLU_inplace R t2) Q"
  unfolding SiLU_inplace_def using assms by (rule alike_inplace)

lemma alike_case_option:
  assumes "x1 = x2" and "alike b1 b2 old a1 a2 Q" and "\<And>c. alike b1 b2 old (f1 c) (f2 c) Q"
  shows "alike b1 b2 old (case x1 of None \<Rightarrow> a1 | Some c \<Rightarrow> f1 c)
           (case x2 of None \<Rightarrow> a2 | Some c \<Rightarrow> f2 c) Q"
  using assms by (cases x2) simp_all

lemma correspond_sub:
  assumes "\<And>name. correspond b1 b2 old (self1 name) (self2 name)"
  shows "correspond b1 b2 old (sub self1 s name) (sub self2 s name)"
  by (simp add: sub_def assms)

lemmas alike_prims = alike_then alike_return alike_raise alike_lift alike_view
  alike_unpack alike_layer alike_plus alike_SiLU

lemma alike_Image2DResBlockWithTV:
  assumes P: "\<And>name. correspond b1 b2 old (self1 name) (self2 name)"
    and x: "correspond b1 b2 old x1 x2" and t: "correspond b1 b2 old t1 t2"
    and v: "correspond b1 b2 old v1 v2"
    and Q: "\<And>y1 y2. allocated_alike b1 b2 y1 y2 \<Longrightarrow> Q y1 y2"
  shows "alike b1 b2 old (Image2DResBlockWithTV_call R self1 x1 t1 v1)
           (Image2DResBlockWithTV_call R self2 x2 t2 v2) Q"
  unfolding Image2DResBlockWithTV_call_def
  by (intro alike_prims Q)
     (simp_all add: correspond_sub [OF P] x t v alike_correspond)

lemma alike_NoisyTargetViewEncoder:
  assumes P: "\<And>name. correspond b1 b2 old (self1 name) (self2 name)"
    and x: "correspond b1 b2 old x1 x2" and t: "correspond b1 b2 old t1 t2"
    and v: "correspond b1 b2 old v1 v2"
    and Q: "\<And>y1 y2. allocated_alike b1 b2 y1 y2 \<Longrightarrow> Q y1 y2"
  shows "alike b1 b2 old (NoisyTargetViewEncoder_call R self1 x1 t1 v1)
           (NoisyTargetViewEncoder_call R self2 x2 t2 v2) Q"
  unfolding NoisyTargetViewEncoder_call_def
  by (intro alike_prims alike_Image2DResBlockWithTV Q)
     (simp_all add: correspond_sub [OF P] x t v alike_correspond)

lemma alike_SpatialTimeBlock:
  assumes P: "\<And>name. correspond b1 b2 old (self1 name) (self2 name)"
    and x: "correspond b1 b2 old x1 x2" and t: "correspond b1 b2 old t1 t2"
    and Q: "\<And>y1 y2. allocated_alike b1 b2 y1 y2 \<Longrightarrow> Q y1 y2"
  shows "alike b1 b2 old (SpatialTimeBlock_call R conv self1 x1 t1)
           (SpatialTimeBlock_call R conv self2 x2 t2) Q"
  unfolding SpatialTimeBlock_call_def
  by (intro alike_prims Q)
     (simp_all add: correspond_sub [OF P] x t alike_correspond)

lemma alike_SpatialUpTimeBlock:
  assumes P: "\<And>name. correspond b1 b2 old (self1 name) (self2 name)"
    and x: "correspond b1 b2 old x1 x2" and t: "correspond b1 b2 old t1 t2"
    and Q: "\<And>y1 y2. allocated_alike b1 b2 y1 y2 \<Longrightarrow> Q y1 y2"
  shows "alike b1 b2 old (SpatialUpTimeBlock_call R self1 x1 t1)
           (SpatialUpTimeBlock_call R self2 x2 t2) Q"
  unfolding SpatialUpTimeBlock_call_def
  by (intro alike_prims Q)
     (simp_all add: correspond_sub [OF P] x t alike_correspond)

lemma alike_SpatialTime3DNet:
  assumes P: "\<And>name. correspond b1 b2 old (self1 name) (self2 name)"
    and x: "correspond b1 b2 old x1 x2" and t: "correspond b1 b2 old t1 t2"
    and Q: "\<And>y1 y2. allocated_alike b1 b2 y1 y2 \<Longrightarrow> Q y1 y2"
  shows "alike b1 b2 old (SpatialTime3DNet_call R self1 x1 t1)
           (SpatialTime3DNet_call R self2 x2 t2) Q"
  unfolding SpatialTime3DNet_call_def
  by (intro alike_prims alike_SpatialTimeBlock alike_SpatialUpTimeBlock Q)
     (simp_all add: correspond_sub [OF P] x t alike_correspond)

lemma alike_weaken:
  assumes "alike b1 b2 old m1 m2 P" and "\<And>x1 x2. P x1 x2 \<Longrightarrow> Q x1 x2"
  shows "alike b1 b2 old m1 m2 Q"
proof (rule alikeI)
  fix w1 w2 :: "'a world"
  assume s: "sim b1 b2 old w1 w2"
  from alikeD [OF assms(1) s] assms(2)
  show "sim b1 b2 old (snd (m1 w1)) (snd (m2 w2))
        \<and> same_outcome Q (fst (m1 w1)) (fst (m2 w2))"
    by (auto simp: same_outcome_def split: sum.splits)
qed

lemma alike_get_warp_coordinates:
  assumes "helper_deterministic ext"
    and "correspond b1 b2 old verts1 verts2" and "correspond b1 b2 old K1 K2"
    and "correspond b1 b2 old P1 P2"
    and Q: "\<And>c1 c2. correspond b1 b2 old c1 c2 \<Longrightarrow> Q c1 c2"
  shows "alike b1 b2 old (get_warp_coordinates_call ext verts1 w sz K1 P1)
           (get_warp_coordinates_call ext verts2 w sz K2 P2) Q"
proof -
  from assms(1-4)
  have "alike b1 b2 old (get_warp_coordinates_call ext verts1 w sz K1 P1)
          (get_warp_coordinates_call ext verts2 w sz K2 P2) (correspond b1 b2 old)"
    by (simp add: helper_deterministic_def)
  then show ?thesis by (rule alike_weaken) (rule Q)
qed

lemma alike_project_source_view:
  assumes H: "helper_deterministic ext"
    and P: "\<And>name. correspond b1 b2 old (params1 name) (params2 name)"
    and x: "correspond b1 b2 old x1 x2" and t: "correspond b1 b2 old t1 t2"
    and v: "correspond b1 b2 old v1 v2"
    and poses: "correspond b1 b2 old poses1 poses2"
    and Ks: "correspond b1 b2 old Ks1 Ks2"
    and verts: "correspond b1 b2 old verts1 verts2"
    and Q: "\<And>r1 r2. correspond b1 b2 old (fst r1) (fst r2) \<Longrightarrow> snd r1 = snd r2 \<Longrightarrow> Q r1 r2"
  shows "alike b1 b2 old
           (project_source_view_call R g ext self params1 x1 t1 v1 poses1 Ks1 verts1 B V ni)
           (project_source_view_call R g ext self params2 x2 t2 v2 poses2 Ks2 verts2 B V ni) Q"
  unfolding project_source_view_call_def
  by (intro alike_prims alike_shape_at alike_shape_last alike_NoisyTargetViewEncoder
        alike_get_warp_coordinates [OF H] alike_kernel Q)
     (simp_all add: correspond_sub [OF P] x t v poses Ks verts alike_correspond)

lemma alike_project_source_views:
  assumes H: "helper_deterministic ext"
    and P: "\<And>name. correspond b1 b2 old (params1 name) (params2 name)"
    and x: "correspond b1 b2 old x1 x2" and t: "correspond b1 b2 old t1 t2"
    and v: "correspond b1 b2 old v1 v2"
    and poses: "correspond b1 b2 old poses1 poses2"
    and Ks: "correspond b1 b2 old Ks1 Ks2"
    and verts: "correspond b1 b2 old verts1 verts2"
    and Q: "\<And>r1 r2. list_all2 (correspond b1 b2 old) (fst r1) (fst r2) \<Longrightarrow> snd r1 = snd r2
              \<Longrightarrow> Q r1 r2"
    and acc: "list_all2 (correspond b1 b2 old) (fst acc1) (fst acc2)" "snd acc1 = snd acc2"
  shows "alike b1 b2 old
           (project_source_views_call R g ext self params1 x1 t1 v1 poses1 Ks1 verts1 B V
              nis acc1)
           (project_source_views_call R g ext self params2 x2 t2 v2 poses2 Ks2 verts2 B V
              nis acc2) Q"
  using acc
proof (induction nis arbitrary: acc1 acc2)
  case Nil
  then show ?case by (simp add: alike_return Q)
next
  case (Cons ni nis)
  show ?case
    unfolding project_source_views_call.simps
  proof (rule alike_then, rule alike_project_source_view [OF H P x t v poses Ks verts])
    fix r1 r2 :: "'a tensor \<times> nat"
    assume r: "correspond b1 b2 old (fst r1) (fst r2)" "snd r1 = snd r2"
    show "alike b1 b2 old
            (project_source_views_call R g ext self params1 x1 t1 v1 poses1 Ks1 verts1 B V
               nis (fst acc1 @ [fst r1], Some (snd r1)))
            (project_source_views_call R g ext self params2 x2 t2 v2 poses2 Ks2 verts2 B V
               nis (fst acc2 @ [fst r2], Some (snd r2))) Q"
      by (rule Cons.IH) (simp_all add: r Cons.prems list_all2_appendI)
  qed
qed

lemma alike_construct_spatial_volume:
  assumes H: "helper_deterministic ext"
    and P: "\<And>name. correspond b1 b2 old (params1 name) (params2 name)"
    and x: "correspond b1 b2 old x1 x2" and t: "correspond b1 b2 old t1 t2"
    and v: "correspond b1 b2 old v1 v2"
    and poses: "correspond b1 b2 old poses1 poses2"
    and Ks: "correspond b1 b2 old Ks1 Ks2"
  shows "alike b1 b2 old
           (construct_spatial_volume_call R g ext self params1 x1 t1 v1 poses1 Ks1)
           (construct_spatial_volume_call R g ext self params2 x2 t2 v2 poses2 Ks2)
           (allocated_alike b1 b2)"
  unfolding construct_spatial_volume_call_def
  by (intro alike_prims alike_shape_at alike_case_option alike_kernel
        alike_project_source_views [OF H P] alike_SpatialTime3DNet)
     (simp_all add: correspond_sub [OF P] x t v poses Ks alike_correspond)

lemma equal_value_correspond:
  assumes "equal_value w1 w2 t1 t2"
  shows "correspond (brk w1) (brk w2)
           (\<lambda>a1 a2. a1 < brk w1 \<and> a2 < brk w2 \<and> heap w1 a1 = heap w2 a2) t1 t2"
  using assms by (simp add: equal_value_def correspond_def)

lemma sim_start:
  assumes "well_formed w1" and "well_formed w2"
  shows "sim (brk w1) (brk w2)
           (\<lambda>a1 a2. a1 < brk w1 \<and> a2 < brk w2 \<and> heap w1 a1 = heap w2 a2) w1 w2"
  using assms by (simp add: sim_def well_formed_def)

lemma same_outcome_alike_read:
  assumes s: "sim b1 b2 old w1' w2'"
    and o: "same_outcome (allocated_alike b1 b2) r1 r2"
  shows "same_outcome
           (\<lambda>y1 y2. meta y1 = meta y2 \<and> heap w1' (storage y1) = heap w2' (storage y2)) r1 r2"
proof -
  have "meta y1 = meta y2 \<and> heap w1' (storage y1) = heap w2' (storage y2)"
    if "allocated_alike b1 b2 y1 y2" for y1 y2
    using sim_read [OF s alike_correspond [OF that]] that
    by (simp add: allocated_alike_def)
  with o show ?thesis
    by (auto simp: same_outcome_def split: sum.splits)
qed



subsection \<open>The duplicated definitions\<close>

lemma project_source_view_copies:
  "project_source_view View_feature_extractor_net_globals ext self x t v p k verts B V ni
     = project_source_view View_feature_extractor_globals ext self x t v p k verts B V ni"
  by (simp add: project_source_view_def resolve_def View_feature_extractor_globals_def
        View_feature_extractor_net_globals_def)

lemma project_source_views_copies:
  "project_source_views View_feature_extractor_net_globals ext self x t v p k verts B V nis acc
     = project_source_views View_feature_extractor_globals ext self x t v p k verts B V nis acc"
proof (induction nis arbitrary: acc)
  case Nil
  show ?case by simp
next
  case (Cons ni nis)
  obtain feats C where acc: "acc = (feats, C)" by (cases acc)
  show ?case
    unfolding acc project_source_views.simps project_source_view_copies
    by (simp add: Cons.IH)
qed

lemma construct_spatial_volume_copies:
  "construct_spatial_volume View_feature_extractor_net_globals ext self x t v p k
     = construct_spatial_volume View_feature_extractor_globals ext self x t v p k"
proof -
  have torch: "resolve View_feature_extractor_net_globals ''torch''
                 = resolve View_feature_extractor_globals ''torch''"
    by (simp add: resolve_def View_feature_extractor_globals_def
          View_feature_extractor_net_globals_def)
  show ?thesis
    unfolding construct_spatial_volume_def torch project_source_views_copies ..
qed

lemma construct_view_frustum_volume_copies:
  "construct_view_frustum_volume View_feature_extractor_net_globals ext self sv t v p k ti
     = construct_view_frustum_volume View_feature_extractor_globals ext self sv t v p k ti"
proof -
  have torch: "resolve View_feature_extractor_net_globals ''torch''
                 = resolve View_feature_extractor_globals ''torch''"
    by (simp add: resolve_def View_feature_extractor_globals_def
          View_feature_extractor_net_globals_def)
  have helper: "resolve View_feature_extractor_net_globals ''create_target_volume''
                  = Inl (NameError ''create_target_volume'')"
               "resolve View_feature_extractor_globals ''create_target_volume''
                  = Inl (NameError ''create_target_volume'')"
    by (simp_all add: resolve_def View_feature_extractor_globals_def
          View_feature_extractor_net_globals_def)
  show ?thesis
    unfolding construct_view_frustum_volume_def torch helper bind_err_Inl ..
qed


end
